theory Spec2Isabelle
  imports Complex_Main
begin

section \<open>JavaScript values\<close>

text \<open>
  The client (src/cdek/api.js), its credential cache (auth.js) and the route layer
  (src/routes/delivery.js) are JavaScript. Their arguments arrive as parsed JSON, so the
  leaves of every argument are JavaScript values: \<open>undefined\<close> (a missing field),
  \<open>null\<close>, booleans, numbers, strings, arrays and plain objects.

  A JavaScript string is a sequence of UTF-16 code units; it is modelled as the list of
  these code units. Property names are ASCII identifiers in this code and are kept as
  HOL strings.

  A JavaScript number is NaN, one of the two infinities, or a finite value. A finite value
  is modelled by the rational it denotes: a result too large for a double becomes an
  infinity, as in IEEE arithmetic, but the rounding of the mantissa, the underflow of a
  tiny value to zero and the sign of zero are not modelled. Whether a value is NaN, and
  whether it is finite, is as in JavaScript.
\<close>

type_synonym jsstring = "nat list"

definition ascii :: "string \<Rightarrow> jsstring" where
  "ascii s = map of_char s"

datatype jsnum = NaN | PosInf | NegInf | Fin rat

datatype jsval =
    JUndefined
  | JNull
  | JBool bool
  | JNum jsnum
  | JStr jsstring
  | JArr "jsval list"
  | JObj "(string \<times> jsval) list"

subsection \<open>Numbers\<close>

text \<open>Half-way between the largest double and \<open>2 ^ 1024\<close>: from here on a value rounds to
  an infinity.\<close>

definition double_limit :: rat where
  "double_limit = 2 ^ 1024 - 2 ^ 970"

definition round_double :: "rat \<Rightarrow> jsnum" where
  "round_double q =
     (if double_limit \<le> q then PosInf
      else if q \<le> - double_limit then NegInf
      else Fin q)"

definition isNaN :: "jsnum \<Rightarrow> bool" where
  "isNaN n = (n = NaN)"

definition isFinite :: "jsnum \<Rightarrow> bool" where
  "isFinite n = (case n of Fin _ \<Rightarrow> True | _ \<Rightarrow> False)"

text \<open>\<open>a + b\<close>, \<open>a - b\<close>, \<open>a * b\<close> and \<open>a < b\<close> on numbers.\<close>

fun num_neg :: "jsnum \<Rightarrow> jsnum" where
  "num_neg NaN = NaN"
| "num_neg PosInf = NegInf"
| "num_neg NegInf = PosInf"
| "num_neg (Fin q) = Fin (- q)"

fun num_add :: "jsnum \<Rightarrow> jsnum \<Rightarrow> jsnum" where
  "num_add NaN _ = NaN"
| "num_add _ NaN = NaN"
| "num_add PosInf NegInf = NaN"
| "num_add NegInf PosInf = NaN"
| "num_add PosInf _ = PosInf"
| "num_add NegInf _ = NegInf"
| "num_add _ PosInf = PosInf"
| "num_add _ NegInf = NegInf"
| "num_add (Fin a) (Fin b) = round_double (a + b)"

definition num_sub :: "jsnum \<Rightarrow> jsnum \<Rightarrow> jsnum" where
  "num_sub a b = num_add a (num_neg b)"

fun num_sgn :: "jsnum \<Rightarrow> int" where
  "num_sgn NaN = 0"
| "num_sgn PosInf = 1"
| "num_sgn NegInf = - 1"
| "num_sgn (Fin q) = (if q < 0 then - 1 else if q = 0 then 0 else 1)"

fun num_mul :: "jsnum \<Rightarrow> jsnum \<Rightarrow> jsnum" where
  "num_mul NaN _ = NaN"
| "num_mul _ NaN = NaN"
| "num_mul (Fin a) (Fin b) = round_double (a * b)"
| "num_mul a b =
     (if num_sgn a * num_sgn b = 0 then NaN
      else if 0 < num_sgn a * num_sgn b then PosInf else NegInf)"

fun num_lt :: "jsnum \<Rightarrow> jsnum \<Rightarrow> bool" where
  "num_lt NaN _ = False"
| "num_lt _ NaN = False"
| "num_lt (Fin a) (Fin b) = (a < b)"
| "num_lt PosInf _ = False"
| "num_lt _ PosInf = True"
| "num_lt NegInf NegInf = False"
| "num_lt NegInf _ = True"
| "num_lt _ NegInf = False"

subsection \<open>Strings\<close>

text \<open>White space and line terminators, the characters \<open>trim\<close>, \<open>Number\<close> and
  \<open>parseInt\<close> skip.\<close>

definition is_space :: "nat \<Rightarrow> bool" where
  "is_space c =
     (c \<in> set [9, 10, 11, 12, 13, 32, 160, 5760, 8232, 8233, 8239, 8287, 12288, 65279]
      \<or> (8192 \<le> c \<and> c \<le> 8202))"

definition trim :: "jsstring \<Rightarrow> jsstring" where
  "trim s = rev (dropWhile is_space (rev (dropWhile is_space s)))"

fun startsWith :: "jsstring \<Rightarrow> jsstring \<Rightarrow> bool" where
  "startsWith _ [] = True"
| "startsWith [] (p # ps) = False"
| "startsWith (c # cs) (p # ps) = (c = p \<and> startsWith cs ps)"

fun includes_str :: "jsstring \<Rightarrow> jsstring \<Rightarrow> bool" where
  "includes_str [] p = (p = [])"
| "includes_str (c # cs) p = (startsWith (c # cs) p \<or> includes_str cs p)"

fun join :: "jsstring \<Rightarrow> jsstring list \<Rightarrow> jsstring" where
  "join sep [] = []"
| "join sep [s] = s"
| "join sep (s # t # ts) = s @ sep @ join sep (t # ts)"

subsection \<open>Digits\<close>

definition is_digit :: "nat \<Rightarrow> bool" where
  "is_digit c = (48 \<le> c \<and> c \<le> 57)"

text \<open>The value of a digit in a radix up to 16, if it is one.\<close>

definition digit_value :: "nat \<Rightarrow> nat \<Rightarrow> nat option" where
  "digit_value radix c =
     (let v = (if 48 \<le> c \<and> c \<le> 57 then c - 48
               else if 97 \<le> c \<and> c \<le> 102 then c - 87
               else if 65 \<le> c \<and> c \<le> 70 then c - 55
               else 16)
      in if v < radix then Some v else None)"

definition is_radix_digit :: "nat \<Rightarrow> nat \<Rightarrow> bool" where
  "is_radix_digit radix c = (digit_value radix c \<noteq> None)"

definition digits_value :: "nat \<Rightarrow> jsstring \<Rightarrow> nat" where
  "digits_value radix ds =
     foldl (\<lambda>a c. radix * a + (case digit_value radix c of Some v \<Rightarrow> v | None \<Rightarrow> 0)) 0 ds"

fun dec :: "nat \<Rightarrow> jsstring" where
  "dec n = (if n < 10 then [48 + n] else dec (n div 10) @ [48 + n mod 10])"

declare dec.simps [simp del]

subsection \<open>Number to string\<close>

text \<open>
  \<open>Number.prototype.toString\<close>: for a positive value, \<open>s\<close> holds its significant digits
  without trailing zeros, \<open>k\<close> is their count and the value is \<open>s * 10 ^ (n - k)\<close>. The
  value is printed in full when \<open>-6 < n \<le> 21\<close> and with an exponent otherwise.
\<close>

fun decimal_places :: "nat \<Rightarrow> rat \<Rightarrow> nat" where
  "decimal_places fuel q =
     (if fuel = 0 \<or> q = of_int \<lfloor>q\<rfloor> then 0
      else Suc (decimal_places (fuel - 1) (10 * q)))"

declare decimal_places.simps [simp del]

fun strip_zeros :: "nat \<Rightarrow> nat \<times> nat" where
  "strip_zeros m =
     (if m \<noteq> 0 \<and> m mod 10 = 0
      then (let (s, z) = strip_zeros (m div 10) in (s, Suc z))
      else (m, 0))"

declare strip_zeros.simps [simp del]

definition positive_to_string :: "rat \<Rightarrow> jsstring" where
  "positive_to_string q =
     (let j = decimal_places (nat (snd (quotient_of q))) q;
          m = nat \<lfloor>q * 10 ^ j\<rfloor>;
          (s, z) = strip_zeros m;
          ds = dec s;
          k = int (length ds);
          n = k + int z - int j
      in if k \<le> n \<and> n \<le> 21 then ds @ replicate (nat (n - k)) 48
         else if 0 < n \<and> n \<le> 21 then take (nat n) ds @ [46] @ drop (nat n) ds
         else if - 6 < n \<and> n \<le> 0 then [48, 46] @ replicate (nat (- n)) 48 @ ds
         else (let e = n - 1;
                   ex = [101] @ (if e < 0 then [45] else [43]) @ dec (nat \<bar>e\<bar>)
               in if k = 1 then ds @ ex else take 1 ds @ [46] @ drop 1 ds @ ex))"

definition num_to_string :: "jsnum \<Rightarrow> jsstring" where
  "num_to_string n =
     (case n of
        NaN \<Rightarrow> ascii ''NaN''
      | PosInf \<Rightarrow> ascii ''Infinity''
      | NegInf \<Rightarrow> ascii ''-Infinity''
      | Fin q \<Rightarrow>
          (if q = 0 then [48]
           else if q < 0 then [45] @ positive_to_string (- q)
           else positive_to_string q))"

subsection \<open>String to number\<close>

text \<open>
  \<open>Number(s)\<close> for a string: white space is trimmed; the empty string is 0; then a
  binary, octal or hexadecimal integer with its prefix, or an optionally signed
  \<open>Infinity\<close> or decimal literal (digits, an optional fraction, an optional exponent).
  Anything else is NaN.
\<close>

definition scale10 :: "rat \<Rightarrow> int \<Rightarrow> rat" where
  "scale10 q e = (if 0 \<le> e then q * 10 ^ nat e else q / 10 ^ nat (- e))"

definition parse_exponent :: "jsstring \<Rightarrow> int option" where
  "parse_exponent s =
     (let (neg, ds) =
            (case s of
               c # cs \<Rightarrow> if c = 45 then (True, cs) else if c = 43 then (False, cs) else (False, s)
             | [] \<Rightarrow> (False, s))
      in if ds \<noteq> [] \<and> list_all is_digit ds
         then Some (if neg then - int (digits_value 10 ds) else int (digits_value 10 ds))
         else None)"

definition parse_unsigned_decimal :: "jsstring \<Rightarrow> rat option" where
  "parse_unsigned_decimal u =
     (let mant = takeWhile (\<lambda>c. c \<noteq> 101 \<and> c \<noteq> 69) u;
          rest = dropWhile (\<lambda>c. c \<noteq> 101 \<and> c \<noteq> 69) u;
          ex = (if rest = [] then Some 0 else parse_exponent (tl rest));
          ip = takeWhile is_digit mant;
          r = dropWhile is_digit mant;
          fp = (if r = [] then [] else tl r);
          wellformed =
            ((r = [] \<and> ip \<noteq> [])
             \<or> (r \<noteq> [] \<and> hd r = 46 \<and> list_all is_digit fp \<and> (ip \<noteq> [] \<or> fp \<noteq> [])))
      in case ex of
           None \<Rightarrow> None
         | Some e \<Rightarrow>
             if wellformed
             then Some (scale10 (of_nat (digits_value 10 (ip @ fp))) (e - int (length fp)))
             else None)"

definition parse_prefixed :: "nat \<Rightarrow> jsstring \<Rightarrow> jsnum" where
  "parse_prefixed radix ds =
     (if ds \<noteq> [] \<and> list_all (is_radix_digit radix) ds
      then round_double (of_nat (digits_value radix ds))
      else NaN)"

definition str_to_number :: "jsstring \<Rightarrow> jsnum" where
  "str_to_number s =
     (let t = trim s
      in case t of
           [] \<Rightarrow> Fin 0
         | c # cs \<Rightarrow>
             if c = 48 \<and> cs \<noteq> [] \<and> hd cs \<in> set [120, 88] then parse_prefixed 16 (tl cs)
             else if c = 48 \<and> cs \<noteq> [] \<and> hd cs \<in> set [111, 79] then parse_prefixed 8 (tl cs)
             else if c = 48 \<and> cs \<noteq> [] \<and> hd cs \<in> set [98, 66] then parse_prefixed 2 (tl cs)
             else
               (let neg = (c = 45);
                    u = (if c = 45 \<or> c = 43 then cs else t)
                in if u = ascii ''Infinity'' then (if neg then NegInf else PosInf)
                   else case parse_unsigned_decimal u of
                          None \<Rightarrow> NaN
                        | Some q \<Rightarrow> round_double (if neg then - q else q)))"

subsection \<open>Conversions of values\<close>

text \<open>\<open>String(v)\<close>; an array joins its elements with commas, \<open>null\<close> and \<open>undefined\<close>
  elements printing as nothing.\<close>

fun toString :: "jsval \<Rightarrow> jsstring" where
  "toString JUndefined = ascii ''undefined''"
| "toString JNull = ascii ''null''"
| "toString (JBool b) = (if b then ascii ''true'' else ascii ''false'')"
| "toString (JNum n) = num_to_string n"
| "toString (JStr s) = s"
| "toString (JArr xs) =
     join [44] (map (\<lambda>x. if x = JNull \<or> x = JUndefined then [] else toString x) xs)"
| "toString (JObj kvs) = ascii ''[object Object]''"

text \<open>\<open>Number(v)\<close>; arrays and objects convert through their string.\<close>

fun toNumber :: "jsval \<Rightarrow> jsnum" where
  "toNumber JUndefined = NaN"
| "toNumber JNull = Fin 0"
| "toNumber (JBool b) = (if b then Fin 1 else Fin 0)"
| "toNumber (JNum n) = n"
| "toNumber (JStr s) = str_to_number s"
| "toNumber (JArr xs) = str_to_number (toString (JArr xs))"
| "toNumber (JObj kvs) = str_to_number (toString (JObj kvs))"

text \<open>The truth value of \<open>v\<close> in a condition (\<open>if (v)\<close>, \<open>!v\<close>, \<open>v || w\<close>, \<open>v && w\<close>).\<close>

fun truthy :: "jsval \<Rightarrow> bool" where
  "truthy JUndefined = False"
| "truthy JNull = False"
| "truthy (JBool b) = b"
| "truthy (JNum n) = (n \<noteq> NaN \<and> n \<noteq> Fin 0)"
| "truthy (JStr s) = (s \<noteq> [])"
| "truthy (JArr xs) = True"
| "truthy (JObj kvs) = True"

definition js_or :: "jsval \<Rightarrow> jsval \<Rightarrow> jsval" where
  "js_or a b = (if truthy a then a else b)"

text \<open>\<open>parseInt(v)\<close> with no radix: leading white space and a sign are skipped, a
  \<open>0x\<close> prefix selects radix 16, and the longest run of digits is read.\<close>

definition parseInt :: "jsval \<Rightarrow> jsnum" where
  "parseInt v =
     (let t = dropWhile is_space (toString v);
          neg = (t \<noteq> [] \<and> hd t = 45);
          u = (if t \<noteq> [] \<and> (hd t = 45 \<or> hd t = 43) then tl t else t);
          hex = (2 \<le> length u \<and> hd u = 48 \<and> hd (tl u) \<in> set [120, 88]);
          radix = (if hex then 16 else 10);
          ds = takeWhile (is_radix_digit radix) (if hex then drop 2 u else u)
      in if ds = [] then NaN
         else round_double (if neg then - of_nat (digits_value radix ds)
                            else of_nat (digits_value radix ds)))"

text \<open>\<open>v.name\<close>: reading a property of \<open>undefined\<close> or \<open>null\<close> raises a TypeError
  (\<open>None\<close>); a property an object does not have, and any of the names used here on a
  number, a boolean, a string or an array, is \<open>undefined\<close>.\<close>

definition get_prop :: "jsval \<Rightarrow> string \<Rightarrow> jsval option" where
  "get_prop v name =
     (case v of
        JUndefined \<Rightarrow> None
      | JNull \<Rightarrow> None
      | JObj kvs \<Rightarrow> (case map_of kvs name of Some x \<Rightarrow> Some x | None \<Rightarrow> Some JUndefined)
      | _ \<Rightarrow> Some JUndefined)"

subsection \<open>JSON\<close>

text \<open>
  \<open>JSON.parse(JSON.stringify(v))\<close>, and with it what a serialised body denotes: a
  property whose value is \<open>undefined\<close> is dropped, an \<open>undefined\<close> array element
  and a number that is not finite become \<open>null\<close>.
\<close>

fun json_clean :: "jsval \<Rightarrow> jsval"
  and json_clean_elems :: "jsval list \<Rightarrow> jsval list"
  and json_clean_fields :: "(string \<times> jsval) list \<Rightarrow> (string \<times> jsval) list" where
  "json_clean JUndefined = JUndefined"
| "json_clean JNull = JNull"
| "json_clean (JBool b) = JBool b"
| "json_clean (JNum n) = (if isFinite n then JNum n else JNull)"
| "json_clean (JStr s) = JStr s"
| "json_clean (JArr xs) = JArr (json_clean_elems xs)"
| "json_clean (JObj kvs) = JObj (json_clean_fields kvs)"
| "json_clean_elems [] = []"
| "json_clean_elems (x # xs) =
     (if x = JUndefined then JNull else json_clean x) # json_clean_elems xs"
| "json_clean_fields [] = []"
| "json_clean_fields ((k, v) # kvs) =
     (if v = JUndefined then json_clean_fields kvs
      else (k, json_clean v) # json_clean_fields kvs)"

text \<open>\<open>JSON.stringify(v)\<close> without indentation, for a value that is not
  \<open>undefined\<close>. A string is quoted; the quote, the backslash and control characters are
  escaped, and so is a surrogate that has no partner.\<close>

definition hex_digit :: "nat \<Rightarrow> nat" where
  "hex_digit d = (if d < 10 then 48 + d else 87 + d)"

definition unicode_escape :: "nat \<Rightarrow> jsstring" where
  "unicode_escape c =
     [92, 117, hex_digit (c div 4096 mod 16), hex_digit (c div 256 mod 16),
      hex_digit (c div 16 mod 16), hex_digit (c mod 16)]"

fun quote_chars :: "jsstring \<Rightarrow> jsstring" where
  "quote_chars [] = []"
| "quote_chars [c] =
     (if c = 34 then [92, 34]
      else if c = 92 then [92, 92]
      else if c = 8 then [92, 98]
      else if c = 9 then [92, 116]
      else if c = 10 then [92, 110]
      else if c = 12 then [92, 102]
      else if c = 13 then [92, 114]
      else if c < 32 \<or> (55296 \<le> c \<and> c \<le> 57343) then unicode_escape c
      else [c])"
| "quote_chars (c # d # cs) =
     (if 55296 \<le> c \<and> c \<le> 56319 \<and> 56320 \<le> d \<and> d \<le> 57343 then c # d # quote_chars cs
      else quote_chars [c] @ quote_chars (d # cs))"

definition quote :: "jsstring \<Rightarrow> jsstring" where
  "quote s = [34] @ quote_chars s @ [34]"

fun json_stringify :: "jsval \<Rightarrow> jsstring"
  and stringify_elems :: "jsval list \<Rightarrow> jsstring list"
  and stringify_fields :: "(string \<times> jsval) list \<Rightarrow> jsstring list" where
  "json_stringify JUndefined = ascii ''undefined''"
| "json_stringify JNull = ascii ''null''"
| "json_stringify (JBool b) = (if b then ascii ''true'' else ascii ''false'')"
| "json_stringify (JNum n) = (if isFinite n then num_to_string n else ascii ''null'')"
| "json_stringify (JStr s) = quote s"
| "json_stringify (JArr xs) = [91] @ join [44] (stringify_elems xs) @ [93]"
| "json_stringify (JObj kvs) = [123] @ join [44] (stringify_fields kvs) @ [125]"
| "stringify_elems [] = []"
| "stringify_elems (x # xs) =
     (if x = JUndefined then ascii ''null'' else json_stringify x) # stringify_elems xs"
| "stringify_fields [] = []"
| "stringify_fields ((k, v) # kvs) =
     (if v = JUndefined then stringify_fields kvs
      else (quote (ascii k) @ [58] @ json_stringify v) # stringify_fields kvs)"

section \<open>Errors\<close>

text \<open>
  Every failure of this code is a JavaScript exception: an \<open>Error\<close> object the code
  throws itself, told apart here by the place that throws it, or an exception of the
  runtime (a rejected \<open>fetch\<close>, a body that is not JSON, a TypeError), kept with the
  message the runtime gave it.
\<close>

datatype error =
    AuthError nat jsstring
  | ApiError nat jsval
  | InvalidPackageNumbers
  | EmptyPackages
  | OrderNumberRequired
  | TariffCodeRequired
  | RecipientRequired
  | PackagesRequired
  | DestinationRequired
  | RuntimeError jsstring

text \<open>The errors that come from a check of the arguments.\<close>

fun is_validation :: "error \<Rightarrow> bool" where
  "is_validation InvalidPackageNumbers = True"
| "is_validation EmptyPackages = True"
| "is_validation OrderNumberRequired = True"
| "is_validation TariffCodeRequired = True"
| "is_validation RecipientRequired = True"
| "is_validation PackagesRequired = True"
| "is_validation DestinationRequired = True"
| "is_validation _ = False"

text \<open>\<open>error.message\<close>, as the \<open>throw\<close> statements build it.\<close>

fun message :: "error \<Rightarrow> jsstring" where
  "message (AuthError st txt) =
     [1054, 1096, 1080, 1073, 1082, 1072, 32, 1072, 1074, 1090, 1086, 1088, 1080, 1079,
      1072, 1094, 1080, 1080, 58, 32] @ dec st @ [32] @ txt"
| "message (ApiError st errorData) =
     ascii ''CDEK API Error ('' @ dec st @ ascii ''): '' @ json_stringify errorData"
| "message InvalidPackageNumbers =
     [1053, 1077, 1074, 1077, 1088, 1085, 1099, 1077, 32, 1095, 1080, 1089, 1083, 1086,
      1074, 1099, 1077, 32, 1079, 1085, 1072, 1095, 1077, 1085, 1080, 1103, 32, 1074, 32,
      1087, 1072, 1088, 1072, 1084, 1077, 1090, 1088, 1072, 1093, 32, 1087, 1086, 1089,
      1099, 1083, 1082, 1080]"
| "message EmptyPackages =
     ascii ''packages '' @
     [1076, 1086, 1083, 1078, 1077, 1085, 32, 1073, 1099, 1090, 1100, 32, 1085, 1077, 1087,
      1091, 1089, 1090, 1099, 1084, 32, 1084, 1072, 1089, 1089, 1080, 1074, 1086, 1084]"
| "message OrderNumberRequired =
     [1053, 1086, 1084, 1077, 1088, 32, 1079, 1072, 1082, 1072, 1079, 1072, 32, 1086, 1073,
      1103, 1079, 1072, 1090, 1077, 1083, 1077, 1085]"
| "message TariffCodeRequired =
     [1050, 1086, 1076, 32, 1090, 1072, 1088, 1080, 1092, 1072, 32, 1086, 1073, 1103, 1079,
      1072, 1090, 1077, 1083, 1077, 1085]"
| "message RecipientRequired =
     [1055, 1086, 1083, 1091, 1095, 1072, 1090, 1077, 1083, 1100, 32, 1086, 1073, 1103,
      1079, 1072, 1090, 1077, 1083, 1077, 1085]"
| "message PackagesRequired =
     [1055, 1086, 1089, 1099, 1083, 1082, 1080, 32, 1086, 1073, 1103, 1079, 1072, 1090,
      1077, 1083, 1100, 1085, 1099]"
| "message DestinationRequired =
     [1053, 1077, 1086, 1073, 1093, 1086, 1076, 1080, 1084, 1086, 32, 1091, 1082, 1072,
      1079, 1072, 1090, 1100, 32, 1083, 1080, 1073, 1086, 32] @ ascii ''deliveryPoint, '' @
     [1083, 1080, 1073, 1086, 32] @ ascii ''toLocation''"
| "message (RuntimeError msg) = msg"

definition type_error :: "string \<Rightarrow> error" where
  "type_error msg = RuntimeError (ascii msg)"

text \<open>The TypeErrors of this code: a property is read of \<open>undefined\<close> or \<open>null\<close>, or
  a method is called on a value that does not have it.\<close>

definition is_nullish :: "jsval \<Rightarrow> bool" where
  "is_nullish v = (v = JUndefined \<or> v = JNull)"

definition cannot_read :: "jsval \<Rightarrow> string \<Rightarrow> error" where
  "cannot_read v name =
     type_error
       (''Cannot read properties of '' @ (if v = JNull then ''null'' else ''undefined'')
        @ '' (reading '' @ [CHR 0x27] @ name @ [CHR 0x27] @ '')'')"

definition not_a_function :: "string \<Rightarrow> error" where
  "not_a_function what = type_error (what @ '' is not a function'')"

section \<open>The network and the clock\<close>

text \<open>
  The carrier is reached through \<open>fetch\<close>. A request is kept by its parts: the base URL
  and the path it is appended to, the query parameters before their encoding, the
  headers, and the body. A JSON body is kept as the value its text denotes.
\<close>

datatype body = NoBody | FormBody "(string \<times> jsstring) list" | JsonBody jsval

record http_request =
  http_method :: string
  base :: jsstring
  path :: string
  query :: "(string \<times> jsstring) list"
  headers :: "(string \<times> jsstring) list"
  payload :: body

text \<open>
  A response has its status, the text of its body, and what \<open>JSON.parse\<close> makes of that
  text: a value, or the message of the SyntaxError it raises.
\<close>

record http_response =
  status :: nat
  body_text :: jsstring
  parsed :: "jsstring + jsval"

definition ok :: "http_response \<Rightarrow> bool" where
  "ok r = (200 \<le> status r \<and> status r \<le> 299)"

datatype reply = Rejected jsstring | Responded http_response

text \<open>
  The state of the process and of its surroundings: the two fields of the credential
  cache (\<open>this.token\<close>, \<open>this.tokenExpiresAt\<close>), the clock \<open>Date.now()\<close> reads (in
  milliseconds), the time zone of the server (for an instant, the minutes its local time
  is ahead of UTC, which is \<open>-getTimezoneOffset()\<close>), what
  the network will answer to the requests to come (each answer with the time it takes),
  the requests made so far, and the lines written by \<open>console.warn\<close> (a label and a
  message). \<open>console.log\<close> and \<open>console.error\<close> are not recorded.
\<close>

record state =
  token :: jsval
  tokenExpiresAt :: jsval
  clock :: int
  utc_offset :: "int \<Rightarrow> int"
  script :: "(nat \<times> reply) list"
  calls :: "http_request list"
  warnings :: "(jsstring \<times> jsstring) list"

text \<open>\<open>await fetch(...)\<close>: the request is recorded, the next answer is taken and the
  clock advances by its delay. With no answer left, the connection is refused.\<close>

definition fetch :: "http_request \<Rightarrow> state \<Rightarrow> (error + http_response) \<times> state" where
  "fetch rq s =
     (case script s of
        [] \<Rightarrow> (Inl (RuntimeError (ascii ''fetch failed'')), s\<lparr>calls := calls s @ [rq]\<rparr>)
      | (delay, answer) # rest \<Rightarrow>
          (let s' = s\<lparr>clock := clock s + int delay, script := rest, calls := calls s @ [rq]\<rparr>
           in case answer of
                Rejected msg \<Rightarrow> (Inl (RuntimeError msg), s')
              | Responded r \<Rightarrow> (Inr r, s')))"

subsection \<open>Dates\<close>

text \<open>
  \<open>String(n).padStart(2, '0')\<close> for a natural number, \<open>String(i)\<close> for an integer, and
  the year, month and day of a number of days since 1 January 1970 in the Gregorian
  calendar.
\<close>

definition pad2 :: "nat \<Rightarrow> jsstring" where
  "pad2 n = (if n < 10 then [48] @ dec n else dec n)"

definition int_to_string :: "int \<Rightarrow> jsstring" where
  "int_to_string i = (if i < 0 then [45] @ dec (nat (- i)) else dec (nat i))"

definition civil_from_days :: "int \<Rightarrow> int \<times> nat \<times> nat" where
  "civil_from_days days =
     (let z = days + 719468;
          era = z div 146097;
          doe = z - era * 146097;
          yoe = (doe - doe div 1460 + doe div 36524 - doe div 146096) div 365;
          doy = doe - (365 * yoe + yoe div 4 - yoe div 100);
          mp = (5 * doy + 2) div 153;
          d = doy - (153 * mp + 2) div 5 + 1;
          m = (if mp < 10 then mp + 3 else mp - 9);
          y = yoe + era * 400 + (if m \<le> 2 then 1 else 0)
      in (y, nat m, nat d))"

text \<open>
  Lines 229 to 240 of api.js: the local date and time of the instant \<open>now\<close> with the
  offset from UTC, as in \<open>2023-11-14T22:13:20+0000\<close>, where the local time is
  \<open>offset\<close> minutes ahead of UTC (a whole number of minutes, which is what
  \<open>-getTimezoneOffset()\<close> gives for the time zones in use). The instant is the one
  \<open>new Date()\<close> reads when the operation is entered.
\<close>

definition date_text :: "int \<times> nat \<times> nat \<Rightarrow> jsstring" where
  "date_text ymd =
     (case ymd of (year, month, day) \<Rightarrow>
        int_to_string year @ [45] @ pad2 month @ [45] @ pad2 day)"

definition time_text :: "int \<Rightarrow> jsstring" where
  "time_text ms =
     pad2 (nat (ms div 3600000)) @ [58] @ pad2 (nat (ms mod 3600000 div 60000)) @ [58]
     @ pad2 (nat (ms mod 60000 div 1000))"

definition offset_text :: "int \<Rightarrow> jsstring" where
  "offset_text offset =
     (if 0 \<le> offset then [43] else [45])
     @ pad2 (nat (\<bar>offset\<bar> div 60)) @ pad2 (nat (\<bar>offset\<bar> mod 60))"

definition local_date_time :: "int \<Rightarrow> int \<Rightarrow> jsstring" where
  "local_date_time offset now =
     (let local = now + offset * 60000
      in date_text (civil_from_days (local div 86400000)) @ [84]
         @ time_text (local mod 86400000) @ offset_text offset)"

definition now_stamp :: "state \<Rightarrow> jsstring" where
  "now_stamp s = local_date_time (utc_offset s (clock s)) (clock s)"

text \<open>
  \<open>new Date(n).toISOString()\<close> raises a RangeError unless \<open>n\<close> is a finite number of
  at most 8.64e15 milliseconds either side of 1970.
\<close>

definition valid_date :: "jsnum \<Rightarrow> bool" where
  "valid_date n = (case n of Fin q \<Rightarrow> \<bar>q\<bar> \<le> 8640000000000000 | _ \<Rightarrow> False)"

section \<open>The credential cache (CDEKAuth)\<close>

record config =
  apiUrl :: jsstring
  account :: jsstring
  securePassword :: jsstring

definition token_request :: "config \<Rightarrow> http_request" where
  "token_request cfg =
     \<lparr>http_method = ''POST'', base = apiUrl cfg, path = ''/oauth/token'', query = [],
      headers = [(''Content-Type'', ascii ''application/x-www-form-urlencoded'')],
      payload = FormBody [(''grant_type'', ascii ''client_credentials''),
                          (''client_id'', account cfg),
                          (''client_secret'', securePassword cfg)]\<rparr>"

text \<open>The condition of line 109:
  \<open>this.token && this.tokenExpiresAt && Date.now() < this.tokenExpiresAt\<close>.\<close>

definition cache_valid :: "state \<Rightarrow> bool" where
  "cache_valid s =
     (truthy (token s) \<and> truthy (tokenExpiresAt s)
      \<and> num_lt (Fin (of_int (clock s))) (toNumber (tokenExpiresAt s)))"

text \<open>
  \<open>getToken()\<close>, lines 107 to 145. Line 139 prints the stored instant as a date, after
  the cache is written: an instant that is no date raises a RangeError there. The
  \<open>catch\<close> block logs and throws the same error again.
\<close>

definition getToken :: "config \<Rightarrow> state \<Rightarrow> (error + jsval) \<times> state" where
  "getToken cfg s =
     (if cache_valid s then (Inr (token s), s)
      else
        case fetch (token_request cfg) s of
          (Inl e, s1) \<Rightarrow> (Inl e, s1)
        | (Inr response, s1) \<Rightarrow>
            if \<not> ok response
            then (Inl (AuthError (status response) (body_text response)), s1)
            else
              (case parsed response of
                 Inl msg \<Rightarrow> (Inl (RuntimeError msg), s1)
               | Inr data \<Rightarrow>
                   (case (get_prop data ''access_token'', get_prop data ''expires_in'') of
                      (Some access_token, Some expires_in) \<Rightarrow>
                        (let expiresIn =
                               num_mul (toNumber (js_or expires_in (JNum (Fin 3600)))) (Fin 1000);
                             expiresAt =
                               num_sub (num_add (Fin (of_int (clock s1))) expiresIn) (Fin 60000);
                             s2 = s1\<lparr>token := access_token, tokenExpiresAt := JNum expiresAt\<rparr>
                         in if valid_date expiresAt then (Inr access_token, s2)
                            else (Inl (RuntimeError (ascii ''Invalid time value'')), s2))
                    | _ \<Rightarrow> (Inl (cannot_read data ''access_token''), s1))))"

text \<open>\<open>resetToken()\<close>, lines 150 to 153.\<close>

definition resetToken :: "state \<Rightarrow> state" where
  "resetToken s = s\<lparr>token := JNull, tokenExpiresAt := JNull\<rparr>"

section \<open>The carrier client (CDEKApiClient)\<close>

subsection \<open>request\<close>

text \<open>An object literal with spread properties: a later property replaces the value of
  an earlier one of the same name, in place.\<close>

fun obj_set :: "(string \<times> 'a) list \<Rightarrow> string \<Rightarrow> 'a \<Rightarrow> (string \<times> 'a) list" where
  "obj_set [] k v = [(k, v)]"
| "obj_set ((k', v') # kvs) k v =
     (if k' = k then (k, v) # kvs else (k', v') # obj_set kvs k v)"

definition obj_spread :: "(string \<times> 'a) list \<Rightarrow> (string \<times> 'a) list \<Rightarrow> (string \<times> 'a) list" where
  "obj_spread kvs extra = foldl (\<lambda>acc (k, v). obj_set acc k v) kvs extra"

text \<open>
  \<open>request(endpoint, options)\<close>, lines 19 to 69. Every endpoint of this client is a path
  (none starts with \<open>http\<close>), so the URL is \<open>apiUrl\<close> followed by the endpoint. The
  arguments are the endpoint with its query parameters, and the method, the headers and
  the body of \<open>options\<close> (\<open>JUndefined\<close> for no body).
\<close>

definition api_request ::
  "config \<Rightarrow> string \<Rightarrow> (string \<times> jsstring) list \<Rightarrow> string \<Rightarrow> (string \<times> jsstring) list \<Rightarrow> jsval
     \<Rightarrow> jsval \<Rightarrow> http_request" where
  "api_request cfg endpoint params meth hdrs b tok =
     \<lparr>http_method = meth, base = apiUrl cfg, path = endpoint, query = params,
      headers =
        obj_spread
          [(''Authorization'', ascii ''Bearer '' @ toString tok),
           (''Content-Type'', ascii ''application/json'')]
          hdrs,
      payload = (if truthy b then JsonBody (json_clean b) else NoBody)\<rparr>"

definition request ::
  "config \<Rightarrow> string \<Rightarrow> (string \<times> jsstring) list \<Rightarrow> string \<Rightarrow> (string \<times> jsstring) list \<Rightarrow> jsval
     \<Rightarrow> state \<Rightarrow> (error + jsval) \<times> state" where
  "request cfg endpoint params meth hdrs b s =
     (case getToken cfg s of
        (Inl e, s1) \<Rightarrow> (Inl e, s1)
      | (Inr tok, s1) \<Rightarrow>
          (case fetch (api_request cfg endpoint params meth hdrs b tok) s1 of
             (Inl e, s2) \<Rightarrow> (Inl e, s2)
           | (Inr response, s2) \<Rightarrow>
               if \<not> ok response
               then
                 (let errorData =
                        (case parsed response of
                           Inr d \<Rightarrow> d
                         | Inl _ \<Rightarrow> JObj [(''message'', JStr (body_text response))])
                  in (Inl (ApiError (status response) errorData), s2))
               else
                 (case parsed response of
                    Inl msg \<Rightarrow> (Inl (RuntimeError msg), s2)
                  | Inr d \<Rightarrow> (Inr d, s2))))"

subsection \<open>getOffices\<close>

text \<open>
  \<open>getOffices(cityCode, filters)\<close>, lines 95 to 105: the city code is a number, the
  filters are the entries of an object. \<open>value.toString()\<close> raises a TypeError on
  \<open>undefined\<close> and \<open>null\<close>.
\<close>

definition getOffices ::
  "config \<Rightarrow> jsnum \<Rightarrow> (string \<times> jsval) list \<Rightarrow> state \<Rightarrow> (error + jsval) \<times> state" where
  "getOffices cfg cityCode filters s =
     (case filter (\<lambda>(k, v). is_nullish v) filters of
        (k, v) # _ \<Rightarrow> (Inl (cannot_read v ''toString''), s)
      | [] \<Rightarrow>
          request cfg ''/deliverypoints''
            (obj_spread
               [(''city_code'', num_to_string cityCode), (''lang'', ascii ''rus'')]
               (map (\<lambda>(k, v). (k, toString v)) filters))
            ''GET'' [] JUndefined s)"

subsection \<open>calculateDelivery\<close>

text \<open>
  The arguments of the quote and order operations have the shapes their documentation
  gives them: a location is an object with a code and an address, a package an object
  with four dimensions. The fields themselves hold any value.
\<close>

record location =
  code :: jsval
  address :: jsval

record package =
  weight :: jsval
  pkg_length :: jsval
  width :: jsval
  height :: jsval

text \<open>The callback of \<open>packages.map\<close>, lines 155 to 171 (and 267 to 283).\<close>

definition package_numbers :: "'a package_scheme \<Rightarrow> error + jsval" where
  "package_numbers pkg =
     (let w = toNumber (weight pkg);
          l = toNumber (pkg_length pkg);
          wd = toNumber (width pkg);
          h = toNumber (height pkg)
      in if isNaN w \<or> isNaN l \<or> isNaN wd \<or> isNaN h then Inl InvalidPackageNumbers
         else Inr (JObj [(''weight'', JNum w), (''length'', JNum l),
                         (''width'', JNum wd), (''height'', JNum h)]))"

text \<open>\<open>xs.map(f)\<close> for a callback that may throw: the first exception ends the loop.\<close>

fun map_throwing :: "('a \<Rightarrow> error + 'b) \<Rightarrow> 'a list \<Rightarrow> error + 'b list" where
  "map_throwing f [] = Inr []"
| "map_throwing f (x # xs) =
     (case f x of
        Inl e \<Rightarrow> Inl e
      | Inr y \<Rightarrow> (case map_throwing f xs of Inl e \<Rightarrow> Inl e | Inr ys \<Rightarrow> Inr (y # ys)))"

text \<open>Lines 117 to 190: the body of the request, or the exception raised while it is
  built.\<close>

definition calculateDelivery_body ::
  "location \<Rightarrow> location \<Rightarrow> package list \<Rightarrow> error + jsval" where
  "calculateDelivery_body fromLocation toLocation packages =
     (let from_location = JObj [(''code'', JStr (toString (code fromLocation)))];
          to_location = JObj [(''code'', JStr (toString (code toLocation)))]
      in case map_throwing package_numbers packages of
           Inl e \<Rightarrow> Inl e
         | Inr packagesArray \<Rightarrow>
             if length packagesArray = 0 then Inl EmptyPackages
             else Inr (json_clean
                         (JObj [(''from_location'', from_location),
                                (''to_location'', to_location),
                                (''packages'', JArr packagesArray)])))"

text \<open>\<open>calculateDelivery(params)\<close>, lines 116 to 201. Of \<open>params\<close> only
  \<open>fromLocation\<close>, \<open>toLocation\<close> and \<open>packages\<close> are used.\<close>

definition calculateDelivery ::
  "config \<Rightarrow> location \<Rightarrow> location \<Rightarrow> package list \<Rightarrow> state \<Rightarrow> (error + jsval) \<times> state" where
  "calculateDelivery cfg fromLocation toLocation packages s =
     (case calculateDelivery_body fromLocation toLocation packages of
        Inl e \<Rightarrow> (Inl e, s)
      | Inr cleanBody \<Rightarrow> request cfg ''/calculator/tarifflist'' [] ''POST'' [] cleanBody s)"

subsection \<open>calculateDeliveryByTariff\<close>

record service =
  svc_code :: jsval
  parameter :: jsval

text \<open>\<open>date.replace(/\.\d{3}/, '')\<close>: the first dot followed by three digits is removed.\<close>

fun strip_millis :: "jsstring \<Rightarrow> jsstring" where
  "strip_millis (c # d1 # d2 # d3 # cs) =
     (if c = 46 \<and> is_digit d1 \<and> is_digit d2 \<and> is_digit d3 then cs
      else c # strip_millis (d1 # d2 # d3 # cs))"
| "strip_millis cs = cs"

text \<open>Lines 246 to 258: the code as a string, and the address when it is a string that is
  not blank.\<close>

definition location_with_address :: "location \<Rightarrow> jsval" where
  "location_with_address loc =
     JObj ([(''code'', JStr (toString (code loc)))]
           @ (case address loc of
                JStr a \<Rightarrow> if a \<noteq> [] \<and> trim a \<noteq> [] then [(''address'', JStr (trim a))] else []
              | _ \<Rightarrow> []))"

text \<open>
  Lines 214 to 303. The date is a string when it is given; \<open>services\<close> is a list, empty
  by default; \<open>currency\<close> is 1 when it is \<open>undefined\<close>. The first argument is the local
  date and time at the call, used when no date is given.
\<close>

definition calculateDeliveryByTariff_body ::
  "jsstring \<Rightarrow> jsval \<Rightarrow> location \<Rightarrow> location \<Rightarrow> package list \<Rightarrow> service list
     \<Rightarrow> jsstring option \<Rightarrow> jsval \<Rightarrow> jsval \<Rightarrow> jsval \<Rightarrow> error + jsval" where
  "calculateDeliveryByTariff_body stamp tariffCode fromLocation toLocation packages services
       date currency shipmentPoint deliveryPoint =
     (let formattedDate =
            (case date of
               None \<Rightarrow> stamp
             | Some d \<Rightarrow> if d = [] then stamp else strip_millis d);
          from_location = location_with_address fromLocation;
          to_location = location_with_address toLocation
      in case map_throwing package_numbers packages of
           Inl e \<Rightarrow> Inl e
         | Inr packagesArray \<Rightarrow>
             Inr (json_clean
                    (JObj
                       ([(''tariff_code'', JNum (toNumber tariffCode)),
                         (''date'', JStr formattedDate),
                         (''currency'',
                            JNum (toNumber (if currency = JUndefined then JNum (Fin 1)
                                            else currency))),
                         (''lang'', JStr (ascii ''rus'')),
                         (''from_location'', from_location),
                         (''to_location'', to_location),
                         (''packages'', JArr packagesArray)]
                        @ (if length services > 0
                           then [(''services'',
                                  JArr (map (\<lambda>svc. JObj [(''code'', svc_code svc),
                                                          (''parameter'', parameter svc)])
                                         services))]
                           else [])
                        @ (if truthy shipmentPoint
                           then [(''shipment_point'', JStr (toString shipmentPoint))] else [])
                        @ (if truthy deliveryPoint
                           then [(''delivery_point'', JStr (toString deliveryPoint))] else [])))))"

text \<open>\<open>calculateDeliveryByTariff(params)\<close>, lines 213 to 311.\<close>

definition calculateDeliveryByTariff ::
  "config \<Rightarrow> jsval \<Rightarrow> location \<Rightarrow> location \<Rightarrow> package list \<Rightarrow> service list
     \<Rightarrow> jsstring option \<Rightarrow> jsval \<Rightarrow> jsval \<Rightarrow> jsval \<Rightarrow> state \<Rightarrow> (error + jsval) \<times> state" where
  "calculateDeliveryByTariff cfg tariffCode fromLocation toLocation packages services
       date currency shipmentPoint deliveryPoint s =
     (case calculateDeliveryByTariff_body (now_stamp s) tariffCode fromLocation toLocation
             packages services date currency shipmentPoint deliveryPoint of
        Inl e \<Rightarrow> (Inl e, s)
      | Inr cleanBody \<Rightarrow> request cfg ''/calculator/tariff'' [] ''POST'' [] cleanBody s)"

subsection \<open>getTariffs\<close>

text \<open>The callback of \<open>tariffs.map\<close>, lines 357 to 362.\<close>

definition tariff_entry :: "jsval \<Rightarrow> error + jsval" where
  "tariff_entry tariff =
     (case (get_prop tariff ''tariff_code'', get_prop tariff ''tariff_name'',
            get_prop tariff ''tariff_description'', get_prop tariff ''delivery_mode'') of
        (Some c, Some n, Some d, Some m) \<Rightarrow>
          Inr (JObj [(''tariff_code'', c), (''tariff_name'', n),
                     (''tariff_description'', js_or d (JStr [])),
                     (''delivery_mode'', m)])
      | _ \<Rightarrow> Inl (cannot_read tariff ''tariff_code''))"

text \<open>
  \<open>getTariffs(lang, options)\<close>, lines 323 to 368, with the two fields of \<open>options\<close> as
  arguments (\<open>JUndefined\<close> when they are not given).
\<close>

definition getTariffs ::
  "config \<Rightarrow> jsstring \<Rightarrow> jsval \<Rightarrow> jsval \<Rightarrow> state \<Rightarrow> (error + jsval) \<times> state" where
  "getTariffs cfg lang optFromCityCode optToCityCode s =
     (case request cfg ''/calculator/tariffs'' [] ''GET'' [(''X-User-Lang'', lang)] JUndefined s of
        (Inr r, s1) \<Rightarrow> (Inr r, s1)
      | (Inl err, s1) \<Rightarrow>
          if message err \<noteq> [] \<and> includes_str (message err) (ascii ''404'')
          then
            (let fromCityCode = js_or optFromCityCode (JNum (Fin 44));
                 toCityCode = js_or optToCityCode (JNum (Fin 270))
             in case calculateDelivery cfg
                       \<lparr>code = fromCityCode, address = JUndefined\<rparr>
                       \<lparr>code = toCityCode, address = JUndefined\<rparr>
                       [\<lparr>weight = JNum (Fin 1000), pkg_length = JNum (Fin 10),
                         width = JNum (Fin 10), height = JNum (Fin 10)\<rparr>]
                       s1 of
                  (Inl e, s2) \<Rightarrow> (Inl e, s2)
                | (Inr result, s2) \<Rightarrow>
                    (case get_prop result ''tariff_codes'' of
                       None \<Rightarrow> (Inl (cannot_read result ''tariff_codes''), s2)
                     | Some tc \<Rightarrow>
                         (case js_or tc (JArr []) of
                            JArr tariffs \<Rightarrow>
                              (case map_throwing tariff_entry tariffs of
                                 Inl e \<Rightarrow> (Inl e, s2)
                               | Inr entries \<Rightarrow> (Inr (JArr entries), s2))
                          | _ \<Rightarrow> (Inl (not_a_function ''tariffs.map''), s2))))
          else (Inl err, s1))"

subsection \<open>createOrder\<close>

text \<open>
  A recipient has a name and phones: an array whose entries are strings or objects, or a
  value that is not an array. A package of an order has, besides its dimensions, a
  number and its items.
\<close>

datatype phone = PhoneString jsstring | PhoneObject "(string \<times> jsval) list"

datatype phone_list = PhoneArray "phone list" | NoArray jsval

record recipient =
  name :: jsval
  phones :: phone_list

record order_package = package +
  pkg_number :: jsval
  items :: jsval

text \<open>\<open>String(phone.number || phone)\<close>, line 416.\<close>

definition phone_number :: "phone \<Rightarrow> jsstring" where
  "phone_number ph =
     (case ph of
        PhoneString p \<Rightarrow> toString (js_or JUndefined (JStr p))
      | PhoneObject kvs \<Rightarrow>
          toString (js_or (case map_of kvs ''number'' of Some v \<Rightarrow> v | None \<Rightarrow> JUndefined)
                          (JObj kvs)))"

text \<open>The callback of \<open>packages.map\<close>, lines 420 to 427, for the package at \<open>index\<close>.\<close>

definition order_package_json :: "nat \<Rightarrow> order_package \<Rightarrow> jsval" where
  "order_package_json index pkg =
     JObj [(''number'', js_or (pkg_number pkg) (JStr (ascii ''PACK-'' @ dec (index + 1)))),
           (''weight'', JNum (toNumber (weight pkg))),
           (''length'', JNum (toNumber (pkg_length pkg))),
           (''width'', JNum (toNumber (width pkg))),
           (''height'', JNum (toNumber (height pkg))),
           (''items'', js_or (items pkg) (JArr []))]"

text \<open>
  Lines 384 to 449: the checks and the body. \<open>type\<close> is 1 when it is \<open>undefined\<close>;
  \<open>toLocation\<close>, \<open>recipient\<close> and \<open>packages\<close> are \<open>None\<close> when they are not given.
\<close>

definition createOrder_body ::
  "jsval \<Rightarrow> jsval \<Rightarrow> jsval \<Rightarrow> jsval \<Rightarrow> jsval \<Rightarrow> location option \<Rightarrow> recipient option
     \<Rightarrow> order_package list option \<Rightarrow> error + jsval" where
  "createOrder_body type number tariffCode shipmentPoint deliveryPoint toLocation
       recipient packages =
     (if \<not> truthy number then Inl OrderNumberRequired
      else if \<not> truthy tariffCode then Inl TariffCodeRequired
      else
        case recipient of
          None \<Rightarrow> Inl RecipientRequired
        | Some rcp \<Rightarrow>
            if \<not> truthy (name rcp) then Inl RecipientRequired
            else
              (case packages of
                 None \<Rightarrow> Inl PackagesRequired
               | Some pkgs \<Rightarrow>
                   if length pkgs = 0 then Inl PackagesRequired
                   else
                     (let body =
                            [(''type'',
                                JNum (toNumber (if type = JUndefined then JNum (Fin 1) else type))),
                             (''number'', JStr (toString number)),
                             (''tariff_code'', JNum (toNumber tariffCode)),
                             (''recipient'',
                                JObj [(''name'', JStr (toString (name rcp))),
                                      (''phones'',
                                         JArr (case phones rcp of
                                                 PhoneArray phs \<Rightarrow>
                                                   map (\<lambda>ph. JObj [(''number'', JStr (phone_number ph))])
                                                     phs
                                               | NoArray v \<Rightarrow>
                                                   [JObj [(''number'', JStr (toString v))]]))]),
                             (''packages'',
                                JArr (map (\<lambda>(index, pkg). order_package_json index pkg)
                                        (enumerate 0 pkgs)))]
                            @ (if truthy shipmentPoint
                               then [(''shipment_point'', JStr (toString shipmentPoint))]
                               else [])
                      in if truthy deliveryPoint
                         then Inr (JObj (body @ [(''delivery_point'',
                                                  JStr (toString deliveryPoint))]))
                         else
                           (case toLocation of
                              Some loc \<Rightarrow>
                                Inr (JObj
                                       (body
                                        @ [(''to_location'',
                                            JObj ([(''code'', JStr (toString (code loc)))]
                                                  @ (if truthy (address loc)
                                                     then [(''address'',
                                                            JStr (toString (address loc)))]
                                                     else [])))]))
                            | None \<Rightarrow> Inl DestinationRequired))))"

text \<open>\<open>createOrder(params)\<close>, lines 383 to 457.\<close>

definition createOrder ::
  "config \<Rightarrow> jsval \<Rightarrow> jsval \<Rightarrow> jsval \<Rightarrow> jsval \<Rightarrow> jsval \<Rightarrow> location option \<Rightarrow> recipient option
     \<Rightarrow> order_package list option \<Rightarrow> state \<Rightarrow> (error + jsval) \<times> state" where
  "createOrder cfg type number tariffCode shipmentPoint deliveryPoint toLocation
       recipient packages s =
     (case createOrder_body type number tariffCode shipmentPoint deliveryPoint toLocation
             recipient packages of
        Inl e \<Rightarrow> (Inl e, s)
      | Inr body \<Rightarrow> request cfg ''/orders'' [] ''POST'' [] body s)"

section \<open>The route layer (src/routes/delivery.js)\<close>

subsection \<open>formatAddress\<close>

text \<open>The locality marker: the Cyrillic letter U+0433, a full stop and a space.\<close>

definition locality_marker :: jsstring where
  "locality_marker = [1075, 46, 32]"

text \<open>\<open>formatAddress(addr)\<close>, lines 106 to 114, for an address that is a string or is
  missing; \<open>None\<close> is \<open>undefined\<close>.\<close>

definition formatAddress :: "jsstring option \<Rightarrow> jsstring option" where
  "formatAddress addr =
     (case addr of
        None \<Rightarrow> None
      | Some a \<Rightarrow>
          if a = [] \<or> trim a = [] then None
          else
            (let trimmed = trim a
             in if \<not> startsWith trimmed locality_marker \<and> \<not> includes_str trimmed [44]
                then Some (locality_marker @ trimmed)
                else Some trimmed))"

subsection \<open>POST /calculate-by-tariff\<close>

text \<open>
  What the handler answers: status 400 with the names of the fields reported missing,
  status 500 with the message of the exception, or status 200, kept with the carrier's
  answer from which lines 431 to 449 build the reply.
\<close>

datatype http_result = BadRequest "string list" | ServerError jsstring | Success jsval

text \<open>
  Lines 357 to 367 (and 383 to 393): the choice among the offices the carrier returned.
  The result is the code chosen, \<open>None\<close> when nothing is chosen, or the exception
  raised on the way.
\<close>

definition select_office :: "string \<Rightarrow> jsval \<Rightarrow> error + jsval option" where
  "select_office var offices =
     (if \<not> truthy offices then Inr None
      else
        case offices of
          JArr xs \<Rightarrow>
            if \<not> length xs > 0 then Inr None
            else
              (case filter is_nullish xs of
                 v # _ \<Rightarrow> Inl (cannot_read v ''is_ltl'')
               | [] \<Rightarrow>
                   (let ltlOffices = filter (\<lambda>office. get_prop office ''is_ltl'' = Some (JBool True)) xs
                    in if length ltlOffices > 0
                       then Inr (Some (case get_prop (hd ltlOffices) ''code'' of
                                         Some c \<Rightarrow> c | None \<Rightarrow> JUndefined))
                       else Inr (Some (case get_prop (hd xs) ''code'' of
                                         Some c \<Rightarrow> c | None \<Rightarrow> JUndefined))))
        | JStr str \<Rightarrow> Inl (not_a_function (var @ ''.filter''))
        | JObj kvs \<Rightarrow>
            if num_lt (Fin 0)
                 (toNumber (case map_of kvs ''length'' of Some v \<Rightarrow> v | None \<Rightarrow> JUndefined))
            then Inl (not_a_function (var @ ''.filter''))
            else Inr None
        | _ \<Rightarrow> Inr None)"

text \<open>
  Lines 349 to 370 and, for the delivery point, lines 375 to 396: the offices of type PVZ
  of the city are asked for, one is chosen, and an exception is caught and written with
  \<open>console.warn\<close>. The result is the new value of the point: the one given when
  nothing was chosen.
\<close>

definition find_office ::
  "config \<Rightarrow> string \<Rightarrow> jsstring \<Rightarrow> jsval \<Rightarrow> jsval \<Rightarrow> state \<Rightarrow> jsval \<times> state" where
  "find_office cfg var label cityCode point s =
     (case getOffices cfg (parseInt cityCode)
             [(''type'', JStr (ascii ''PVZ'')), (''size'', JNum (Fin 10))] s of
        (Inl err, s1) \<Rightarrow> (point, s1\<lparr>warnings := warnings s1 @ [(label, message err)]\<rparr>)
      | (Inr offices, s1) \<Rightarrow>
          (case select_office var offices of
             Inl err \<Rightarrow> (point, s1\<lparr>warnings := warnings s1 @ [(label, message err)]\<rparr>)
           | Inr None \<Rightarrow> (point, s1)
           | Inr (Some c) \<Rightarrow> (c, s1)))"

definition warn_shipment :: jsstring where
  "warn_shipment =
     [1053, 1077, 32, 1091, 1076, 1072, 1083, 1086, 1089, 1100, 32, 1085, 1072, 1081, 1090,
      1080, 32, 1055, 1042, 1047, 32, 1086, 1090, 1087, 1088, 1072, 1074, 1083, 1077, 1085,
      1080, 1103, 58]"

definition warn_delivery :: jsstring where
  "warn_delivery =
     [1053, 1077, 32, 1091, 1076, 1072, 1083, 1086, 1089, 1100, 32, 1085, 1072, 1081, 1090,
      1080, 32, 1055, 1042, 1047, 32, 1076, 1086, 1089, 1090, 1072, 1074, 1082, 1080, 58]"

text \<open>Lines 342 to 398: the shipment point and the delivery point the quote is asked
  with.\<close>

definition discover_points ::
  "config \<Rightarrow> jsval \<Rightarrow> jsval \<Rightarrow> jsval \<Rightarrow> jsval \<Rightarrow> jsval \<Rightarrow> jsval \<Rightarrow> state
     \<Rightarrow> (jsval \<times> jsval) \<times> state" where
  "discover_points cfg tariffCode fromCityCode toCityCode toAddress shipmentPoint
       deliveryPoint s =
     (if parseInt tariffCode = Fin 751
      then
        (let (finalShipmentPoint, s1) =
               (if \<not> truthy shipmentPoint
                then find_office cfg ''officesFrom'' warn_shipment fromCityCode shipmentPoint s
                else (shipmentPoint, s));
             (finalDeliveryPoint, s2) =
               (if \<not> truthy deliveryPoint \<and> \<not> truthy toAddress
                then find_office cfg ''officesTo'' warn_delivery toCityCode deliveryPoint s1
                else (deliveryPoint, s1))
         in ((finalShipmentPoint, finalDeliveryPoint), s2))
      else ((shipmentPoint, deliveryPoint), s))"

text \<open>
  The handler, lines 304 to 459, with the fields of the request body as arguments;
  \<open>services\<close> is a list, empty by default.
\<close>

definition calculate_by_tariff ::
  "config \<Rightarrow> jsval \<Rightarrow> jsval \<Rightarrow> jsval \<Rightarrow> jsval \<Rightarrow> jsval \<Rightarrow> jsval \<Rightarrow> jsval \<Rightarrow> jsval \<Rightarrow> jsval
     \<Rightarrow> service list \<Rightarrow> jsval \<Rightarrow> jsval \<Rightarrow> state \<Rightarrow> http_result \<times> state" where
  "calculate_by_tariff cfg tariffCode fromCityCode fromAddress toCityCode toAddress
       weight' length' width' height' services shipmentPoint deliveryPoint s =
     (let errors =
            map fst
              (filter (\<lambda>(field, v). \<not> truthy v)
                 [(''tariffCode'', tariffCode), (''fromCityCode'', fromCityCode),
                  (''fromAddress'', fromAddress), (''toCityCode'', toCityCode),
                  (''weight'', weight'), (''length'', length'), (''width'', width'),
                  (''height'', height')])
      in if length errors > 0 then (BadRequest errors, s)
         else
           (let ((finalShipmentPoint, finalDeliveryPoint), s2) =
                  discover_points cfg tariffCode fromCityCode toCityCode toAddress
                    shipmentPoint deliveryPoint s
            in if truthy toAddress \<and> (case toAddress of JStr a \<Rightarrow> False | _ \<Rightarrow> True)
               then (ServerError (message (not_a_function ''toAddress.trim'')), s2)
               else
                 (let toLocation =
                        \<lparr>code = JNum (parseInt toCityCode),
                         address = (case toAddress of
                                      JStr a \<Rightarrow> if a \<noteq> [] \<and> trim a \<noteq> [] then JStr (trim a)
                                                else JUndefined
                                    | _ \<Rightarrow> JUndefined)\<rparr>
                  in case calculateDeliveryByTariff cfg (JNum (parseInt tariffCode))
                            \<lparr>code = JNum (parseInt fromCityCode), address = fromAddress\<rparr>
                            toLocation
                            [\<lparr>weight = JNum (parseInt weight'),
                              pkg_length = JNum (parseInt length'),
                              width = JNum (parseInt width'),
                              height = JNum (parseInt height')\<rparr>]
                            services None JUndefined finalShipmentPoint finalDeliveryPoint s2 of
                       (Inl e, s3) \<Rightarrow> (ServerError (message e), s3)
                     | (Inr result, s3) \<Rightarrow>
                         if is_nullish result
                         then (ServerError (message (cannot_read result ''tariff_code'')), s3)
                         else (Success result, s3))))"

section \<open>Observing a run\<close>

text \<open>The requests made between two states, the JSON bodies among them, and the
  properties of a body.\<close>

definition new_calls :: "state \<Rightarrow> state \<Rightarrow> http_request list" where
  "new_calls s s' = drop (length (calls s)) (calls s')"

definition json_bodies :: "http_request list \<Rightarrow> jsval list" where
  "json_bodies rqs = concat (map (\<lambda>rq. case payload rq of JsonBody b \<Rightarrow> [b] | _ \<Rightarrow> []) rqs)"

definition field :: "jsval \<Rightarrow> string \<Rightarrow> jsval option" where
  "field v k = (case v of JObj kvs \<Rightarrow> map_of kvs k | _ \<Rightarrow> None)"

definition code_of :: "jsval \<Rightarrow> string \<Rightarrow> jsval option" where
  "code_of b loc = (case field b loc of Some l \<Rightarrow> field l ''code'' | None \<Rightarrow> None)"

text \<open>
  A package whose four dimensions convert to numbers, and the package as a quote sends
  it: a dimension that is not finite is serialised as \<open>null\<close>.
\<close>

definition numeric_package :: "'a package_scheme \<Rightarrow> bool" where
  "numeric_package pkg =
     (\<not> isNaN (toNumber (weight pkg)) \<and> \<not> isNaN (toNumber (pkg_length pkg))
      \<and> \<not> isNaN (toNumber (width pkg)) \<and> \<not> isNaN (toNumber (height pkg)))"

definition sent_number :: "jsnum \<Rightarrow> jsval" where
  "sent_number n = (if isFinite n then JNum n else JNull)"

definition sent_package :: "'a package_scheme \<Rightarrow> jsval" where
  "sent_package pkg =
     JObj [(''weight'', sent_number (toNumber (weight pkg))),
           (''length'', sent_number (toNumber (pkg_length pkg))),
           (''width'', sent_number (toNumber (width pkg))),
           (''height'', sent_number (toNumber (height pkg)))]"

text \<open>
  The query for the offices of type PVZ of a city, as a handler that holds the token
  \<open>tok\<close> sends it; and the office the specification prefers among those returned: the
  first one flagged \<open>is_ltl\<close>, or the first one when none is flagged.
\<close>

definition pvz_filters :: "(string \<times> jsval) list" where
  "pvz_filters = [(''type'', JStr (ascii ''PVZ'')), (''size'', JNum (Fin 10))]"

definition pvz_query :: "config \<Rightarrow> jsval \<Rightarrow> jsval \<Rightarrow> http_request" where
  "pvz_query cfg cityCode tok =
     api_request cfg ''/deliverypoints''
       [(''city_code'', num_to_string (parseInt cityCode)), (''lang'', ascii ''rus''),
        (''type'', ascii ''PVZ''), (''size'', ascii ''10'')]
       ''GET'' [] JUndefined tok"

definition preferred_office :: "jsval list \<Rightarrow> jsval" where
  "preferred_office offices =
     (case find (\<lambda>office. field office ''is_ltl'' = Some (JBool True)) offices of
        Some office \<Rightarrow> office
      | None \<Rightarrow> hd offices)"

definition office_code :: "jsval \<Rightarrow> jsval" where
  "office_code office = (case field office ''code'' of Some c \<Rightarrow> c | None \<Rightarrow> JUndefined)"

section \<open>Example runs\<close>

text \<open>A configuration, an answer of the token endpoint, a state whose cache is empty, the
  state the first \<open>getToken()\<close> leaves behind, and a rejected token exchange.\<close>

definition cfg0 :: config where
  "cfg0 = \<lparr>apiUrl = ascii ''https://api.edu.cdek.ru/v2'', account = ascii ''account'',
            securePassword = ascii ''secret''\<rparr>"

definition token_reply :: http_response where
  "token_reply =
     \<lparr>status = 200, body_text = [],
      parsed = Inr (JObj [(''access_token'', JStr (ascii ''tok-1'')),
                          (''expires_in'', JNum (Fin 3600))])\<rparr>"

definition fresh :: state where
  "fresh =
     \<lparr>token = JNull, tokenExpiresAt = JNull, clock = 1700000000000, utc_offset = (\<lambda>t. 0),
      script = [(120, Responded token_reply)], calls = [], warnings = []\<rparr>"





definition denied_reply :: http_response where
  "denied_reply =
     \<lparr>status = 401, body_text = ascii ''invalid_client'',
      parsed = Inl (ascii ''Unexpected token i in JSON at position 0'')\<rparr>"

text \<open>A state whose cache holds a valid token, two locations with addresses, a package,
  and a quote of it answered by the carrier.\<close>

definition cached :: state where
  "cached =
     \<lparr>token = JStr (ascii ''tok-1''), tokenExpiresAt = JNum (Fin 1700003540120),
      clock = 1700000000500, utc_offset = (\<lambda>t. 0), script = [],
      calls = [], warnings = []\<rparr>"

definition moscow :: location where
  "moscow = \<lparr>code = JNum (Fin 44), address = JStr [1052, 1086, 1089, 1082, 1074, 1072]\<rparr>"

definition novosibirsk :: location where
  "novosibirsk = \<lparr>code = JNum (Fin 270), address = JStr (ascii ''Novosibirsk'')\<rparr>"

definition parcel :: package where
  "parcel = \<lparr>weight = JNum (Fin 2000), pkg_length = JStr (ascii ''10''),
             width = JNum (Fin 20), height = JNum (Fin 30)\<rparr>"

definition quote_reply :: http_response where
  "quote_reply = \<lparr>status = 200, body_text = [], parsed = Inr (JObj [(''tariff_codes'', JArr [])])\<rparr>"

definition quoting :: state where
  "quoting = cached\<lparr>script := [(300, Responded quote_reply)]\<rparr>"

text \<open>A recipient and a package of an order.\<close>

definition ivanov :: recipient where
  "ivanov = \<lparr>name = JStr (ascii ''Ivan Ivanov''),
             phones = PhoneArray [PhoneString (ascii ''+79991234567'')]\<rparr>"

definition crate :: order_package where
  "crate = \<lparr>weight = JNum (Fin 50000), pkg_length = JNum (Fin 50), width = JNum (Fin 50),
            height = JNum (Fin 50), pkg_number = JUndefined, items = JUndefined\<rparr>"

text \<open>The bodies these runs send.\<close>

definition package_json :: jsval where
  "package_json = JObj [(''weight'', JNum (Fin 2000)), (''length'', JNum (Fin 10)),
                        (''width'', JNum (Fin 20)), (''height'', JNum (Fin 30))]"

definition quote_body :: jsval where
  "quote_body =
     JObj [(''from_location'', JObj [(''code'', JStr (ascii ''44''))]),
           (''to_location'', JObj [(''code'', JStr (ascii ''270''))]),
           (''packages'', JArr [package_json])]"

definition tariff_body :: jsval where
  "tariff_body =
     JObj [(''tariff_code'', JNum (Fin 136)),
           (''date'', JStr (ascii ''2023-11-14T22:13:20+0000'')),
           (''currency'', JNum (Fin 1)),
           (''lang'', JStr (ascii ''rus'')),
           (''from_location'',
              JObj [(''code'', JStr (ascii ''44'')),
                    (''address'', JStr [1052, 1086, 1089, 1082, 1074, 1072])]),
           (''to_location'',
              JObj [(''code'', JStr (ascii ''270'')),
                    (''address'', JStr (ascii ''Novosibirsk''))]),
           (''packages'', JArr [package_json])]"

definition order_head :: "(string \<times> jsval) list" where
  "order_head =
     [(''type'', JNum (Fin 1)),
      (''number'', JStr (ascii ''ORDER-1'')),
      (''tariff_code'', JNum (Fin 136)),
      (''recipient'',
         JObj [(''name'', JStr (ascii ''Ivan Ivanov'')),
               (''phones'', JArr [JObj [(''number'', JStr (ascii ''+79991234567''))]])]),
      (''packages'',
         JArr [JObj [(''number'', JStr (ascii ''PACK-1'')),
                     (''weight'', JNum (Fin 50000)), (''length'', JNum (Fin 50)),
                     (''width'', JNum (Fin 50)), (''height'', JNum (Fin 50)),
                     (''items'', JArr [])]])]"

definition door_order_body :: jsval where
  "door_order_body =
     JObj (order_head
           @ [(''to_location'',
               JObj [(''code'', JStr (ascii ''270'')),
                     (''address'', JStr (ascii ''Novosibirsk''))])])"

definition point_order_body :: jsval where
  "point_order_body = JObj (order_head @ [(''delivery_point'', JStr (ascii ''MSK123''))])"

text \<open>A package whose weight is the string \<open>Infinity\<close>, one whose height is missing, and
  the body sent for the first.\<close>

definition heavy :: package where
  "heavy = parcel\<lparr>weight := JStr (ascii ''Infinity'')\<rparr>"

definition flat :: package where
  "flat = parcel\<lparr>height := JUndefined\<rparr>"

definition heavy_quote_body :: jsval where
  "heavy_quote_body =
     JObj [(''from_location'', JObj [(''code'', JStr (ascii ''44''))]),
           (''to_location'', JObj [(''code'', JStr (ascii ''270''))]),
           (''packages'',
              JArr [JObj [(''weight'', JNull), (''length'', JNum (Fin 10)),
                          (''width'', JNum (Fin 20)), (''height'', JNum (Fin 30))]])]"

text \<open>The tariffs endpoint answers 404 and the quote that follows lists one tariff
  twice; or the tariffs endpoint answers 500 with a text that holds the digits 404.\<close>

definition not_found_reply :: http_response where
  "not_found_reply =
     \<lparr>status = 404, body_text = ascii ''Not Found'',
      parsed = Inl (ascii ''Unexpected token N in JSON at position 0'')\<rparr>"

definition tariff_136 :: "(string \<times> jsval) list" where
  "tariff_136 =
     [(''tariff_code'', JNum (Fin 136)),
      (''tariff_name'', JStr (ascii ''Parcel warehouse-warehouse'')),
      (''tariff_description'', JStr (ascii ''Economy'')),
      (''delivery_mode'', JNum (Fin 4))]"

definition twice_reply :: http_response where
  "twice_reply =
     \<lparr>status = 200, body_text = [],
      parsed = Inr (JObj [(''tariff_codes'',
                            JArr [JObj (tariff_136 @ [(''delivery_sum'', JNum (Fin 450))]),
                                  JObj (tariff_136 @ [(''delivery_sum'', JNum (Fin 520))])])])\<rparr>"

definition listing :: state where
  "listing = cached\<lparr>script := [(100, Responded not_found_reply), (300, Responded twice_reply)]\<rparr>"

definition fallback_body :: jsval where
  "fallback_body =
     JObj [(''from_location'', JObj [(''code'', JStr (ascii ''44''))]),
           (''to_location'', JObj [(''code'', JStr (ascii ''270''))]),
           (''packages'',
              JArr [JObj [(''weight'', JNum (Fin 1000)), (''length'', JNum (Fin 10)),
                          (''width'', JNum (Fin 10)), (''height'', JNum (Fin 10))]])]"

definition broken_reply :: http_response where
  "broken_reply =
     \<lparr>status = 500, body_text = ascii ''upstream answered 404'',
      parsed = Inl (ascii ''Unexpected token u in JSON at position 0'')\<rparr>"

definition failing :: state where
  "failing = cached\<lparr>script := [(100, Responded broken_reply), (300, Responded twice_reply)]\<rparr>"

text \<open>Addresses, in Cyrillic: the bare city name Moskva, and the full address that
  begins with the locality marker and the city and goes on, after a comma, with the
  street.\<close>

definition moskva :: jsstring where
  "moskva = [1052, 1086, 1089, 1082, 1074, 1072]"

definition full_address :: jsstring where
  "full_address =
     [1075, 46, 32, 1052, 1086, 1089, 1082, 1074, 1072, 44, 32, 1091, 1083, 46, 32, 1051,
      1077, 1085, 1080, 1085, 1072]"

text \<open>
  A quote with tariff 751 and no shipment point: the carrier returns two offices, the
  second of them flagged, and then the quote; or the query for the offices is refused.
\<close>

definition two_offices :: "jsval list" where
  "two_offices =
     [JObj [(''code'', JStr (ascii ''MSK5'')), (''is_ltl'', JBool False)],
      JObj [(''code'', JStr (ascii ''MSK7'')), (''is_ltl'', JBool True)]]"

definition offices_reply :: http_response where
  "offices_reply = \<lparr>status = 200, body_text = [], parsed = Inr (JArr two_offices)\<rparr>"

definition tariff_reply :: http_response where
  "tariff_reply =
     \<lparr>status = 200, body_text = [],
      parsed = Inr (JObj [(''tariff_code'', JNum (Fin 751)), (''delivery_sum'', JNum (Fin 1200))])\<rparr>"

definition discovering :: state where
  "discovering =
     cached\<lparr>script := [(200, Responded offices_reply), (400, Responded tariff_reply)]\<rparr>"

definition refused :: state where
  "refused =
     cached\<lparr>script := [(50, Rejected (ascii ''fetch failed'')), (400, Responded tariff_reply)]\<rparr>"

definition lenina :: jsval where
  "lenina = JStr (ascii ''Lenina 1'')"

definition discovered :: state where
  "discovered =
     discovering\<lparr>clock := 1700000000700, script := [(400, Responded tariff_reply)],
                  calls := [pvz_query cfg0 (JNum (Fin 44)) (JStr (ascii ''tok-1''))]\<rparr>"

definition refused_after :: state where
  "refused_after =
     refused\<lparr>clock := 1700000000550, script := [(400, Responded tariff_reply)],
              calls := [pvz_query cfg0 (JNum (Fin 44)) (JStr (ascii ''tok-1''))],
              warnings := [(warn_shipment, ascii ''fetch failed'')]\<rparr>"

definition warehouse_body :: "(string \<times> jsval) list" where
  "warehouse_body =
     [(''tariff_code'', JNum (Fin 751)),
      (''date'', JStr (ascii ''2023-11-14T22:13:20+0000'')),
      (''currency'', JNum (Fin 1)),
      (''lang'', JStr (ascii ''rus'')),
      (''from_location'',
         JObj [(''code'', JStr (ascii ''44'')), (''address'', JStr (ascii ''Moscow''))]),
      (''to_location'',
         JObj [(''code'', JStr (ascii ''270'')), (''address'', JStr (ascii ''Lenina 1''))]),
      (''packages'', JArr [package_json])]"

section \<open>Evaluating the model\<close>

text \<open>The definitions a run on given values unfolds.\<close>

lemmas js_eval =
  ascii_def num_to_string_def positive_to_string_def decimal_places.simps strip_zeros.simps
  dec.simps str_to_number_def trim_def is_space_def parse_unsigned_decimal_def
  parse_exponent_def is_digit_def digits_value_def digit_value_def scale10_def
  round_double_def double_limit_def isNaN_def isFinite_def js_or_def get_prop_def num_sub_def

lemmas net_eval =
  getToken_def cache_valid_def fetch_def ok_def request_def api_request_def token_request_def
  obj_spread_def new_calls_def json_bodies_def Let_def

text \<open>The date and time the example quotes are stamped with.\<close>

lemma civil_example: "civil_from_days 19675 = (2023, 11, 14)"
  unfolding civil_from_days_def Let_def by simp

lemma date_example: "date_text (2023, 11, 14) = ascii ''2023-11-14''"
  by (simp add: date_text_def pad2_def int_to_string_def dec.simps ascii_def)

lemma offset_example: "offset_text 0 = ascii ''+0000''"
  by (simp add: offset_text_def pad2_def dec.simps ascii_def)

lemma stamp_500: "local_date_time 0 1700000000500 = ascii ''2023-11-14T22:13:20+0000''"
  by (simp add: local_date_time_def civil_example date_example offset_example time_text_def
      pad2_def dec.simps ascii_def)

lemma stamp_700: "local_date_time 0 1700000000700 = ascii ''2023-11-14T22:13:20+0000''"
  by (simp add: local_date_time_def civil_example date_example offset_example time_text_def
      pad2_def dec.simps ascii_def)

lemma stamp_550: "local_date_time 0 1700000000550 = ascii ''2023-11-14T22:13:20+0000''"
  by (simp add: local_date_time_def civil_example date_example offset_example time_text_def
      pad2_def dec.simps ascii_def)

lemmas stamp_eval = now_stamp_def stamp_500 stamp_700 stamp_550

section \<open>The credential cache\<close>

lemma fetch_calls: "calls (snd (fetch rq s)) = calls s @ [rq]"
  by (simp add: fetch_def Let_def split: list.splits prod.splits reply.splits)

lemma getToken_calls:
  "calls (snd (getToken cfg s)) = calls s @ (if cache_valid s then [] else [token_request cfg])"
  by (simp add: getToken_def fetch_def Let_def
      split: list.splits prod.splits reply.splits sum.splits option.splits)












text \<open>
  C2. When \<open>getToken()\<close> has to exchange the credentials and the answer has a status
  outside 200 to 299, it fails with the authentication error that carries the status and
  the text of the answer, and the token and the expiry instant of the cache are what
  they were before the call.
\<close>

theorem getToken_rejected_keeps_cache:
  "\<not> cache_valid s \<Longrightarrow> script s = (delay, Responded r) # rest \<Longrightarrow> \<not> ok r \<Longrightarrow>
   getToken cfg s =
     (Inl (AuthError (status r) (body_text r)),
      s\<lparr>clock := clock s + int delay, script := rest, calls := calls s @ [token_request cfg]\<rparr>)
   \<and> token (snd (getToken cfg s)) = token s
   \<and> tokenExpiresAt (snd (getToken cfg s)) = tokenExpiresAt s"
  by (simp add: getToken_def fetch_def)

theorem getToken_rejected_keeps_cache_witness:
  "getToken cfg0 (fresh\<lparr>script := [(80, Responded denied_reply)]\<rparr>)
     = (Inl (AuthError 401 (ascii ''invalid_client'')),
        fresh\<lparr>clock := 1700000000080, script := [], calls := [token_request cfg0]\<rparr>)
   \<and> token (snd (getToken cfg0 (fresh\<lparr>script := [(80, Responded denied_reply)]\<rparr>))) = JNull
   \<and> tokenExpiresAt (snd (getToken cfg0 (fresh\<lparr>script := [(80, Responded denied_reply)]\<rparr>))) = JNull"
  using getToken_rejected_keeps_cache
    [of "fresh\<lparr>script := [(80, Responded denied_reply)]\<rparr>" 80 denied_reply "[]" cfg0]
  by (simp add: cache_valid_def fresh_def denied_reply_def ok_def)

section \<open>The requests the client makes\<close>

text \<open>\<open>request\<close> adds to the requests made the token exchange, when the cache is not
  valid, and then its own request; the only JSON body among them is the one it was given.\<close>

lemma request_state:
  "getToken cfg s = (Inr tok, s1) \<Longrightarrow>
   snd (request cfg ep q m h b s) = snd (fetch (api_request cfg ep q m h b tok) s1)"
  by (simp add: request_def Let_def split: prod.splits sum.splits)

lemma request_calls:
  "calls (snd (request cfg ep q m h b s)) =
     calls s @ (if cache_valid s then [] else [token_request cfg])
     @ (case fst (getToken cfg s) of Inr tok \<Rightarrow> [api_request cfg ep q m h b tok] | Inl e \<Rightarrow> [])"
proof (cases "getToken cfg s")
  case (Pair r s1)
  have c1: "calls s1 = calls s @ (if cache_valid s then [] else [token_request cfg])"
    using getToken_calls [of cfg s] Pair by simp
  show ?thesis
  proof (cases r)
    case (Inl e)
    with Pair c1 show ?thesis by (simp add: request_def)
  next
    case (Inr tok)
    with Pair have "snd (request cfg ep q m h b s) = snd (fetch (api_request cfg ep q m h b tok) s1)"
      by (simp add: request_state)
    with Pair Inr c1 show ?thesis
      by (simp add: fetch_calls)
  qed
qed

lemma json_bodies_append: "json_bodies (xs @ ys) = json_bodies xs @ json_bodies ys"
  by (simp add: json_bodies_def)

lemma json_bodies_token_request: "json_bodies [token_request cfg] = []"
  by (simp add: json_bodies_def token_request_def)

lemma json_bodies_api_request:
  "json_bodies [api_request cfg ep q m h b tok] = (if truthy b then [json_clean b] else [])"
  by (simp add: json_bodies_def api_request_def)

lemma json_bodies_Nil: "json_bodies [] = []"
  by (simp add: json_bodies_def)

lemma request_json_bodies:
  "set (json_bodies (new_calls s (snd (request cfg ep q m h b s))))
     \<subseteq> (if truthy b then {json_clean b} else {})"
proof (cases "fst (getToken cfg s)")
  case (Inl e)
  then show ?thesis
    by (simp add: new_calls_def request_calls json_bodies_append json_bodies_token_request
        json_bodies_Nil)
next
  case (Inr tok)
  then show ?thesis
    by (simp add: new_calls_def request_calls json_bodies_append json_bodies_token_request
        json_bodies_api_request json_bodies_Nil)
qed

lemma new_calls_same: "json_bodies (new_calls s s) = []"
  by (simp add: new_calls_def json_bodies_def)

lemma calculateDelivery_body_shape:
  "calculateDelivery_body fromLocation toLocation packages = Inr cleanBody \<Longrightarrow>
   \<exists>pk. cleanBody =
      JObj [(''from_location'', JObj [(''code'', JStr (toString (code fromLocation)))]),
            (''to_location'', JObj [(''code'', JStr (toString (code toLocation)))]),
            (''packages'', JArr pk)]"
  by (auto simp: calculateDelivery_body_def Let_def split: sum.splits if_splits)

lemma calculateDelivery_bodies:
  "set (json_bodies (new_calls s (snd (calculateDelivery cfg fromLocation toLocation packages s))))
     \<subseteq> (case calculateDelivery_body fromLocation toLocation packages of
          Inr cleanBody \<Rightarrow> {json_clean cleanBody} | Inl e \<Rightarrow> {})"
proof (cases "calculateDelivery_body fromLocation toLocation packages")
  case (Inl e)
  then show ?thesis
    by (simp add: calculateDelivery_def new_calls_same)
next
  case (Inr cleanBody)
  then have "truthy cleanBody"
    using calculateDelivery_body_shape by fastforce
  then show ?thesis
    using request_json_bodies [of s cfg "''/calculator/tarifflist''" "[]" "''POST''" "[]" cleanBody]
    by (simp add: calculateDelivery_def Inr)
qed

lemma location_with_address_code:
  "field (json_clean (json_clean (location_with_address loc))) ''code''
     = Some (JStr (toString (code loc)))"
  by (simp add: location_with_address_def field_def)

lemma calculateDeliveryByTariff_body_codes:
  "calculateDeliveryByTariff_body stamp tariffCode fromLocation toLocation packages services
       date currency shipmentPoint deliveryPoint = Inr cleanBody \<Longrightarrow>
   truthy cleanBody
   \<and> code_of (json_clean cleanBody) ''from_location'' = Some (JStr (toString (code fromLocation)))
   \<and> code_of (json_clean cleanBody) ''to_location'' = Some (JStr (toString (code toLocation)))"
  by (auto simp: calculateDeliveryByTariff_body_def Let_def code_of_def field_def
      location_with_address_def split: sum.splits)

lemma calculateDeliveryByTariff_bodies:
  "set (json_bodies (new_calls s (snd (calculateDeliveryByTariff cfg tariffCode fromLocation
          toLocation packages services date currency shipmentPoint deliveryPoint s))))
     \<subseteq> (case calculateDeliveryByTariff_body (now_stamp s) tariffCode fromLocation toLocation
               packages services date currency shipmentPoint deliveryPoint of
          Inr cleanBody \<Rightarrow> {json_clean cleanBody} | Inl e \<Rightarrow> {})"
proof (cases "calculateDeliveryByTariff_body (now_stamp s) tariffCode fromLocation toLocation
               packages services date currency shipmentPoint deliveryPoint")
  case (Inl e)
  then show ?thesis
    by (simp add: calculateDeliveryByTariff_def new_calls_same)
next
  case (Inr cleanBody)
  then have "truthy cleanBody"
    using calculateDeliveryByTariff_body_codes by blast
  then show ?thesis
    using request_json_bodies [of s cfg "''/calculator/tariff''" "[]" "''POST''" "[]" cleanBody]
    by (simp add: calculateDeliveryByTariff_def Inr)
qed

lemma json_clean_fields_append:
  "json_clean_fields (xs @ ys) = json_clean_fields xs @ json_clean_fields ys"
  by (induction xs) auto

lemma createOrder_body_destination:
  "createOrder_body type number tariffCode shipmentPoint deliveryPoint toLocation
       recipient packages = Inr body \<Longrightarrow>
   truthy body
   \<and> (truthy deliveryPoint \<longrightarrow>
        field (json_clean body) ''delivery_point'' = Some (JStr (toString deliveryPoint))
        \<and> field (json_clean body) ''to_location'' = None)
   \<and> (\<not> truthy deliveryPoint \<longrightarrow>
        field (json_clean body) ''delivery_point'' = None
        \<and> (\<exists>loc. toLocation = Some loc
              \<and> code_of (json_clean body) ''to_location'' = Some (JStr (toString (code loc)))))"
  by (auto simp: createOrder_body_def Let_def code_of_def field_def json_clean_fields_append
      split: option.splits if_splits)

lemma createOrder_bodies:
  "set (json_bodies (new_calls s (snd (createOrder cfg type number tariffCode shipmentPoint
          deliveryPoint toLocation recipient packages s))))
     \<subseteq> (case createOrder_body type number tariffCode shipmentPoint deliveryPoint toLocation
               recipient packages of
          Inr body \<Rightarrow> {json_clean body} | Inl e \<Rightarrow> {})"
proof (cases "createOrder_body type number tariffCode shipmentPoint deliveryPoint toLocation
               recipient packages")
  case (Inl e)
  then show ?thesis
    by (simp add: createOrder_def new_calls_same)
next
  case (Inr body)
  then have "truthy body"
    using createOrder_body_destination by blast
  then show ?thesis
    using request_json_bodies [of s cfg "''/orders''" "[]" "''POST''" "[]" body]
    by (simp add: createOrder_def Inr)
qed

text \<open>When the token is obtained, \<open>request\<close> sends the body it was given, and sends nothing
  else with a JSON body.\<close>

lemma request_sends:
  "getToken cfg s = (Inr tok, s1) \<Longrightarrow> truthy b \<Longrightarrow>
   json_bodies (new_calls s (snd (request cfg ep q m h b s))) = [json_clean b]"
  by (simp add: new_calls_def request_calls json_bodies_append json_bodies_token_request
      json_bodies_api_request json_bodies_Nil)

text \<open>Packages whose dimensions convert to numbers pass the check of the quotes.\<close>

lemma map_throwing_numeric:
  "\<forall>pkg \<in> set packages. numeric_package pkg \<Longrightarrow>
   map_throwing package_numbers packages =
     Inr (map (\<lambda>pkg. JObj [(''weight'', JNum (toNumber (weight pkg))),
                          (''length'', JNum (toNumber (pkg_length pkg))),
                          (''width'', JNum (toNumber (width pkg))),
                          (''height'', JNum (toNumber (height pkg)))]) packages)"
  by (induction packages) (simp_all add: package_numbers_def numeric_package_def Let_def)

lemma json_clean_elems_numbers:
  "json_clean_elems (map (\<lambda>pkg. JObj [(''weight'', JNum (toNumber (weight pkg))),
                          (''length'', JNum (toNumber (pkg_length pkg))),
                          (''width'', JNum (toNumber (width pkg))),
                          (''height'', JNum (toNumber (height pkg)))]) packages)
     = map sent_package packages"
  by (induction packages) (simp_all add: sent_package_def sent_number_def)

lemma json_clean_sent_packages:
  "json_clean_elems (map sent_package packages) = map sent_package packages"
  by (induction packages) (simp_all add: sent_package_def sent_number_def)

lemma calculateDelivery_body_numeric:
  "packages \<noteq> [] \<Longrightarrow> \<forall>pkg \<in> set packages. numeric_package pkg \<Longrightarrow>
   calculateDelivery_body fromLocation toLocation packages =
     Inr (JObj [(''from_location'', JObj [(''code'', JStr (toString (code fromLocation)))]),
                (''to_location'', JObj [(''code'', JStr (toString (code toLocation)))]),
                (''packages'', JArr (map sent_package packages))])"
  by (simp add: calculateDelivery_body_def map_throwing_numeric json_clean_elems_numbers)

lemma calculateDeliveryByTariff_body_numeric:
  "\<forall>pkg \<in> set packages. numeric_package pkg \<Longrightarrow>
   \<exists>cleanBody. calculateDeliveryByTariff_body stamp tariffCode fromLocation toLocation packages
       services date currency shipmentPoint deliveryPoint = Inr cleanBody"
  by (simp add: calculateDeliveryByTariff_body_def map_throwing_numeric Let_def)

lemma createOrder_body_valid:
  "truthy number \<Longrightarrow> truthy tariffCode \<Longrightarrow> recipient = Some rcp \<Longrightarrow> truthy (name rcp) \<Longrightarrow>
   packages = Some pkgs \<Longrightarrow> pkgs \<noteq> [] \<Longrightarrow> truthy deliveryPoint \<or> toLocation \<noteq> None \<Longrightarrow>
   \<exists>body. createOrder_body type number tariffCode shipmentPoint deliveryPoint toLocation
       recipient packages = Inr body"
  by (auto simp: createOrder_body_def Let_def)

lemma calculateDelivery_sends:
  "calculateDelivery_body fromLocation toLocation packages = Inr cleanBody \<Longrightarrow>
   getToken cfg s = (Inr tok, s1) \<Longrightarrow>
   json_bodies (new_calls s (snd (calculateDelivery cfg fromLocation toLocation packages s)))
     = [json_clean cleanBody]"
proof -
  assume body: "calculateDelivery_body fromLocation toLocation packages = Inr cleanBody"
    and tok: "getToken cfg s = (Inr tok, s1)"
  from body have "truthy cleanBody"
    using calculateDelivery_body_shape by fastforce
  with tok show ?thesis
    using request_sends [of cfg s tok s1 cleanBody "''/calculator/tarifflist''" "[]" "''POST''" "[]"]
    by (simp add: calculateDelivery_def body)
qed

lemma calculateDeliveryByTariff_sends:
  "calculateDeliveryByTariff_body (now_stamp s) tariffCode fromLocation toLocation packages
       services date currency shipmentPoint deliveryPoint = Inr cleanBody \<Longrightarrow>
   getToken cfg s = (Inr tok, s1) \<Longrightarrow>
   json_bodies (new_calls s (snd (calculateDeliveryByTariff cfg tariffCode fromLocation
       toLocation packages services date currency shipmentPoint deliveryPoint s)))
     = [json_clean cleanBody]"
proof -
  assume body: "calculateDeliveryByTariff_body (now_stamp s) tariffCode fromLocation toLocation
       packages services date currency shipmentPoint deliveryPoint = Inr cleanBody"
    and tok: "getToken cfg s = (Inr tok, s1)"
  from body have "truthy cleanBody"
    using calculateDeliveryByTariff_body_codes by blast
  with tok show ?thesis
    using request_sends [of cfg s tok s1 cleanBody "''/calculator/tariff''" "[]" "''POST''" "[]"]
    by (simp add: calculateDeliveryByTariff_def body)
qed

lemma createOrder_sends:
  "createOrder_body type number tariffCode shipmentPoint deliveryPoint toLocation
       recipient packages = Inr body \<Longrightarrow>
   getToken cfg s = (Inr tok, s1) \<Longrightarrow>
   json_bodies (new_calls s (snd (createOrder cfg type number tariffCode shipmentPoint
       deliveryPoint toLocation recipient packages s)))
     = [json_clean body]"
proof -
  assume body: "createOrder_body type number tariffCode shipmentPoint deliveryPoint toLocation
       recipient packages = Inr body"
    and tok: "getToken cfg s = (Inr tok, s1)"
  from body have "truthy body"
    using createOrder_body_destination by blast
  with tok show ?thesis
    using request_sends [of cfg s tok s1 body "''/orders''" "[]" "''POST''" "[]"]
    by (simp add: createOrder_def body)
qed

text \<open>The example runs, and the decimal strings they need.\<close>

lemma quoting_getToken: "getToken cfg0 quoting = (Inr (JStr (ascii ''tok-1'')), quoting)"
  by (simp add: getToken_def cache_valid_def quoting_def cached_def ascii_def)

lemma parcel_numeric: "numeric_package parcel"
  by (simp add: numeric_package_def parcel_def js_eval)

lemma parcel_sent: "sent_package parcel = package_json"
  by (simp add: sent_package_def sent_number_def parcel_def package_json_def js_eval)

lemma quote_run:
  "json_bodies (new_calls quoting (snd (calculateDelivery cfg0 moscow novosibirsk [parcel] quoting)))
     = [quote_body]"
  by (simp add: calculateDelivery_def calculateDelivery_body_def package_numbers_def
      quoting_def cached_def quote_reply_def moscow_def novosibirsk_def parcel_def
      quote_body_def package_json_def cfg0_def js_eval net_eval)

lemma tariff_run:
  "json_bodies (new_calls quoting (snd (calculateDeliveryByTariff cfg0 (JNum (Fin 136)) moscow
       novosibirsk [parcel] [] None JUndefined JUndefined JUndefined quoting)))
     = [tariff_body]"
  by (simp add: calculateDeliveryByTariff_def calculateDeliveryByTariff_body_def
      package_numbers_def location_with_address_def
      quoting_def cached_def quote_reply_def moscow_def novosibirsk_def parcel_def
      tariff_body_def package_json_def cfg0_def stamp_eval js_eval net_eval)

lemma door_order_run:
  "json_bodies (new_calls quoting (snd (createOrder cfg0 JUndefined (JStr (ascii ''ORDER-1''))
       (JNum (Fin 136)) JUndefined JUndefined (Some novosibirsk) (Some ivanov) (Some [crate])
       quoting)))
     = [door_order_body]"
  by (simp add: createOrder_def createOrder_body_def order_package_json_def phone_number_def
      enumerate_eq_zip
      quoting_def cached_def quote_reply_def novosibirsk_def ivanov_def crate_def
      door_order_body_def order_head_def cfg0_def js_eval net_eval)

lemma point_order_run:
  "json_bodies (new_calls quoting (snd (createOrder cfg0 JUndefined (JStr (ascii ''ORDER-1''))
       (JNum (Fin 136)) JUndefined (JStr (ascii ''MSK123'')) (Some novosibirsk) (Some ivanov)
       (Some [crate]) quoting)))
     = [point_order_body]"
  by (simp add: createOrder_def createOrder_body_def order_package_json_def phone_number_def
      enumerate_eq_zip
      quoting_def cached_def quote_reply_def novosibirsk_def ivanov_def crate_def
      point_order_body_def order_head_def cfg0_def js_eval net_eval)

lemma toString_44: "num_to_string (Fin 44) = ascii ''44''"
  by (simp add: js_eval)

lemma toString_270: "num_to_string (Fin 270) = ascii ''270''"
  by (simp add: js_eval)

section \<open>The quotes\<close>

text \<open>
  C10. With an empty list of packages, \<open>calculateDelivery\<close> raises the error of line 174,
  a validation error, and the state is unchanged: neither the token exchange nor the
  carrier request is made.
\<close>

theorem calculateDelivery_empty_packages:
  "calculateDelivery cfg fromLocation toLocation [] s = (Inl EmptyPackages, s)
   \<and> is_validation EmptyPackages"
  by (simp add: calculateDelivery_def calculateDelivery_body_def)

text \<open>
  C5. Every JSON body \<open>calculateDelivery\<close> sends has exactly the three properties
  \<open>from_location\<close>, \<open>to_location\<close> and \<open>packages\<close>, and each location in it has the
  code, as a string, and nothing else: the addresses of the arguments are left out.
  And for valid input, which is at least one package and dimensions that all convert to
  numbers, the body is built: it has these three properties, the packages with their
  four dimensions as numbers; when the token is obtained, this body is sent, and it is
  the only JSON body sent.
\<close>

theorem calculateDelivery_minimal_body:
  "(\<forall>b \<in> set (json_bodies (new_calls s (snd (calculateDelivery cfg fromLocation toLocation packages s)))).
     \<exists>pk. b = JObj [(''from_location'', JObj [(''code'', JStr (toString (code fromLocation)))]),
                    (''to_location'', JObj [(''code'', JStr (toString (code toLocation)))]),
                    (''packages'', JArr pk)])
   \<and> (packages \<noteq> [] \<and> (\<forall>pkg \<in> set packages. numeric_package pkg) \<longrightarrow>
        calculateDelivery_body fromLocation toLocation packages =
          Inr (JObj [(''from_location'', JObj [(''code'', JStr (toString (code fromLocation)))]),
                     (''to_location'', JObj [(''code'', JStr (toString (code toLocation)))]),
                     (''packages'', JArr (map sent_package packages))]))
   \<and> (packages \<noteq> [] \<and> (\<forall>pkg \<in> set packages. numeric_package pkg)
        \<and> getToken cfg s = (Inr tok, s') \<longrightarrow>
        json_bodies (new_calls s (snd (calculateDelivery cfg fromLocation toLocation packages s)))
          = [JObj [(''from_location'', JObj [(''code'', JStr (toString (code fromLocation)))]),
                   (''to_location'', JObj [(''code'', JStr (toString (code toLocation)))]),
                   (''packages'', JArr (map sent_package packages))]])"
proof -
  let ?sent = "json_bodies (new_calls s
      (snd (calculateDelivery cfg fromLocation toLocation packages s)))"
  let ?body = "JObj [(''from_location'', JObj [(''code'', JStr (toString (code fromLocation)))]),
                     (''to_location'', JObj [(''code'', JStr (toString (code toLocation)))]),
                     (''packages'', JArr (map sent_package packages))]"
  have every: "\<forall>b \<in> set ?sent.
     \<exists>pk. b = JObj [(''from_location'', JObj [(''code'', JStr (toString (code fromLocation)))]),
                    (''to_location'', JObj [(''code'', JStr (toString (code toLocation)))]),
                    (''packages'', JArr pk)]"
  proof (cases "calculateDelivery_body fromLocation toLocation packages")
    case (Inl e)
    then show ?thesis
      by (simp add: calculateDelivery_def new_calls_same)
  next
    case (Inr cleanBody)
    then obtain pk where body: "cleanBody =
        JObj [(''from_location'', JObj [(''code'', JStr (toString (code fromLocation)))]),
              (''to_location'', JObj [(''code'', JStr (toString (code toLocation)))]),
              (''packages'', JArr pk)]"
      by (auto simp: calculateDelivery_body_def Let_def split: sum.splits if_splits)
    have "set ?sent \<subseteq> {json_clean cleanBody}"
      using request_json_bodies [of s cfg "''/calculator/tarifflist''" "[]" "''POST''" "[]" cleanBody]
      by (simp add: calculateDelivery_def Inr body)
    then show ?thesis
      by (auto simp: body)
  qed
  have built: "calculateDelivery_body fromLocation toLocation packages = Inr ?body"
    if h: "packages \<noteq> [] \<and> (\<forall>pkg \<in> set packages. numeric_package pkg)"
    using h calculateDelivery_body_numeric by blast
  have sent: "?sent = [?body]"
    if h: "packages \<noteq> [] \<and> (\<forall>pkg \<in> set packages. numeric_package pkg)
        \<and> getToken cfg s = (Inr tok, s')"
  proof -
    from h have body: "calculateDelivery_body fromLocation toLocation packages = Inr ?body"
      using built by blast
    from h have tok: "getToken cfg s = (Inr tok, s')"
      by blast
    have "json_clean ?body = ?body"
      by (simp add: json_clean_sent_packages)
    with calculateDelivery_sends [OF body tok] show ?thesis
      by simp
  qed
  from every built sent show ?thesis
    by blast
qed

text \<open>
  The quote from Moscow (44) to Novosibirsk (270), both given with an address, for one
  package whose length is the string \<open>"10"\<close>, builds the body \<open>quote_body\<close>, and sends it
  and no other body.
\<close>

theorem calculateDelivery_minimal_body_witness:
  "[parcel] \<noteq> [] \<and> numeric_package parcel
   \<and> getToken cfg0 quoting = (Inr (JStr (ascii ''tok-1'')), quoting)
   \<and> calculateDelivery_body moscow novosibirsk [parcel] = Inr quote_body
   \<and> json_bodies (new_calls quoting
        (snd (calculateDelivery cfg0 moscow novosibirsk [parcel] quoting))) = [quote_body]
   \<and> (\<exists>pk. quote_body =
         JObj [(''from_location'', JObj [(''code'', JStr (toString (code moscow)))]),
               (''to_location'', JObj [(''code'', JStr (toString (code novosibirsk)))]),
               (''packages'', JArr pk)])"
proof -
  note inst = calculateDelivery_minimal_body
    [where s = quoting and cfg = cfg0 and fromLocation = moscow and toLocation = novosibirsk
       and packages = "[parcel]" and tok = "JStr (ascii ''tok-1'')" and s' = quoting]
  have body: "JObj [(''from_location'', JObj [(''code'', JStr (toString (code moscow)))]),
                    (''to_location'', JObj [(''code'', JStr (toString (code novosibirsk)))]),
                    (''packages'', JArr (map sent_package [parcel]))] = quote_body"
    by (simp add: quote_body_def parcel_sent moscow_def novosibirsk_def toString_44 toString_270)
  have valid: "[parcel] \<noteq> [] \<and> (\<forall>pkg \<in> set [parcel]. numeric_package pkg)
      \<and> getToken cfg0 quoting = (Inr (JStr (ascii ''tok-1'')), quoting)"
    by (simp add: parcel_numeric quoting_getToken)
  from inst valid have built: "calculateDelivery_body moscow novosibirsk [parcel] =
          Inr (JObj [(''from_location'', JObj [(''code'', JStr (toString (code moscow)))]),
                     (''to_location'', JObj [(''code'', JStr (toString (code novosibirsk)))]),
                     (''packages'', JArr (map sent_package [parcel]))])"
    by blast
  from inst valid have sent: "json_bodies (new_calls quoting
        (snd (calculateDelivery cfg0 moscow novosibirsk [parcel] quoting)))
          = [JObj [(''from_location'', JObj [(''code'', JStr (toString (code moscow)))]),
                   (''to_location'', JObj [(''code'', JStr (toString (code novosibirsk)))]),
                   (''packages'', JArr (map sent_package [parcel]))]]"
    by blast
  from sent inst have shape: "\<exists>pk. JObj [(''from_location'', JObj [(''code'', JStr (toString (code moscow)))]),
                   (''to_location'', JObj [(''code'', JStr (toString (code novosibirsk)))]),
                   (''packages'', JArr (map sent_package [parcel]))] =
         JObj [(''from_location'', JObj [(''code'', JStr (toString (code moscow)))]),
               (''to_location'', JObj [(''code'', JStr (toString (code novosibirsk)))]),
               (''packages'', JArr pk)]"
    by simp
  from built sent shape show ?thesis
    unfolding body using parcel_numeric quoting_getToken by simp
qed

text \<open>
  C4. In every JSON body sent by \<open>calculateDelivery\<close> and by
  \<open>calculateDeliveryByTariff\<close>, \<open>from_location.code\<close> and \<open>to_location.code\<close> are the
  strings \<open>String(code)\<close> of the codes given; in every JSON body sent by
  \<open>createOrder\<close> that has a \<open>to_location\<close>, its code is the string of the code given
  (an order has no \<open>from_location\<close>). And such a body is sent: when the token is
  obtained, a quote whose packages have dimensions that convert to numbers (at least one
  package, for \<open>calculateDelivery\<close>) sends exactly one JSON body, with these codes; so
  does an order with a number, a tariff code, a named recipient, at least one package,
  and a location for its destination and no delivery point.
\<close>

theorem location_codes_sent_as_strings:
  "(\<forall>b \<in> set (json_bodies (new_calls s
          (snd (calculateDelivery cfg fromLocation toLocation packages s)))).
      code_of b ''from_location'' = Some (JStr (toString (code fromLocation)))
      \<and> code_of b ''to_location'' = Some (JStr (toString (code toLocation))))
   \<and> (\<forall>b \<in> set (json_bodies (new_calls s
          (snd (calculateDeliveryByTariff cfg tariffCode fromLocation toLocation packages
                  services date currency shipmentPoint deliveryPoint s)))).
      code_of b ''from_location'' = Some (JStr (toString (code fromLocation)))
      \<and> code_of b ''to_location'' = Some (JStr (toString (code toLocation))))
   \<and> (\<forall>b \<in> set (json_bodies (new_calls s
          (snd (createOrder cfg type number tariffCode shipmentPoint deliveryPoint
                  orderLocation recipient orderPackages s)))).
      field b ''to_location'' = None
      \<or> (\<exists>loc. orderLocation = Some loc
            \<and> code_of b ''to_location'' = Some (JStr (toString (code loc)))))
   \<and> (packages \<noteq> [] \<and> (\<forall>pkg \<in> set packages. numeric_package pkg)
        \<and> getToken cfg s = (Inr tok, s') \<longrightarrow>
        (\<exists>b. json_bodies (new_calls s
                 (snd (calculateDelivery cfg fromLocation toLocation packages s))) = [b]
            \<and> code_of b ''from_location'' = Some (JStr (toString (code fromLocation)))
            \<and> code_of b ''to_location'' = Some (JStr (toString (code toLocation)))))
   \<and> ((\<forall>pkg \<in> set packages. numeric_package pkg) \<and> getToken cfg s = (Inr tok, s') \<longrightarrow>
        (\<exists>b. json_bodies (new_calls s
                 (snd (calculateDeliveryByTariff cfg tariffCode fromLocation toLocation packages
                         services date currency shipmentPoint deliveryPoint s))) = [b]
            \<and> code_of b ''from_location'' = Some (JStr (toString (code fromLocation)))
            \<and> code_of b ''to_location'' = Some (JStr (toString (code toLocation)))))
   \<and> (truthy number \<and> truthy tariffCode \<and> recipient = Some rcp \<and> truthy (name rcp)
        \<and> orderPackages = Some pkgs \<and> pkgs \<noteq> [] \<and> \<not> truthy deliveryPoint
        \<and> orderLocation = Some loc \<and> getToken cfg s = (Inr tok, s') \<longrightarrow>
        (\<exists>b. json_bodies (new_calls s
                 (snd (createOrder cfg type number tariffCode shipmentPoint deliveryPoint
                         orderLocation recipient orderPackages s))) = [b]
            \<and> code_of b ''to_location'' = Some (JStr (toString (code loc)))))"
proof -
  let ?quote = "json_bodies (new_calls s
      (snd (calculateDelivery cfg fromLocation toLocation packages s)))"
  let ?tariff = "json_bodies (new_calls s
      (snd (calculateDeliveryByTariff cfg tariffCode fromLocation toLocation packages
              services date currency shipmentPoint deliveryPoint s)))"
  let ?order = "json_bodies (new_calls s
      (snd (createOrder cfg type number tariffCode shipmentPoint deliveryPoint
              orderLocation recipient orderPackages s)))"
  have quote: "code_of b ''from_location'' = Some (JStr (toString (code fromLocation)))
      \<and> code_of b ''to_location'' = Some (JStr (toString (code toLocation)))"
    if h: "b \<in> set ?quote" for b
  proof -
    from h obtain cleanBody where
      "calculateDelivery_body fromLocation toLocation packages = Inr cleanBody"
      and b: "b = json_clean cleanBody"
      using calculateDelivery_bodies [of s cfg fromLocation toLocation packages]
      by (auto split: sum.splits)
    then obtain pk where "cleanBody =
        JObj [(''from_location'', JObj [(''code'', JStr (toString (code fromLocation)))]),
              (''to_location'', JObj [(''code'', JStr (toString (code toLocation)))]),
              (''packages'', JArr pk)]"
      using calculateDelivery_body_shape by blast
    with b show ?thesis
      by (simp add: code_of_def field_def)
  qed
  have tariff: "code_of b ''from_location'' = Some (JStr (toString (code fromLocation)))
      \<and> code_of b ''to_location'' = Some (JStr (toString (code toLocation)))"
    if h: "b \<in> set ?tariff" for b
  proof -
    from h obtain cleanBody where
      "calculateDeliveryByTariff_body (now_stamp s) tariffCode fromLocation toLocation packages
         services date currency shipmentPoint deliveryPoint = Inr cleanBody"
      and b: "b = json_clean cleanBody"
      using calculateDeliveryByTariff_bodies [of s cfg tariffCode fromLocation toLocation packages
          services date currency shipmentPoint deliveryPoint]
      by (auto split: sum.splits)
    then show ?thesis
      using calculateDeliveryByTariff_body_codes by blast
  qed
  have order: "field b ''to_location'' = None
      \<or> (\<exists>loc. orderLocation = Some loc
            \<and> code_of b ''to_location'' = Some (JStr (toString (code loc))))"
    if h: "b \<in> set ?order" for b
  proof -
    from h obtain body where
      body: "createOrder_body type number tariffCode shipmentPoint deliveryPoint orderLocation
         recipient orderPackages = Inr body"
      and b: "b = json_clean body"
      using createOrder_bodies [of s cfg type number tariffCode shipmentPoint deliveryPoint
          orderLocation recipient orderPackages]
      by (auto split: sum.splits)
    from createOrder_body_destination [OF body] b show ?thesis
      by (cases "truthy deliveryPoint") auto
  qed
  have quote_sent: "\<exists>b. ?quote = [b]
            \<and> code_of b ''from_location'' = Some (JStr (toString (code fromLocation)))
            \<and> code_of b ''to_location'' = Some (JStr (toString (code toLocation)))"
    if h: "packages \<noteq> [] \<and> (\<forall>pkg \<in> set packages. numeric_package pkg)
        \<and> getToken cfg s = (Inr tok, s')"
  proof -
    from h obtain cleanBody where
      body: "calculateDelivery_body fromLocation toLocation packages = Inr cleanBody"
      using calculateDelivery_body_numeric by blast
    from h have tok: "getToken cfg s = (Inr tok, s')"
      by blast
    have sent: "?quote = [json_clean cleanBody]"
      using calculateDelivery_sends [OF body tok] .
    then have "json_clean cleanBody \<in> set ?quote"
      by simp
    with quote sent show ?thesis
      by blast
  qed
  have tariff_sent: "\<exists>b. ?tariff = [b]
            \<and> code_of b ''from_location'' = Some (JStr (toString (code fromLocation)))
            \<and> code_of b ''to_location'' = Some (JStr (toString (code toLocation)))"
    if h: "(\<forall>pkg \<in> set packages. numeric_package pkg) \<and> getToken cfg s = (Inr tok, s')"
  proof -
    from h obtain cleanBody where
      body: "calculateDeliveryByTariff_body (now_stamp s) tariffCode fromLocation toLocation
         packages services date currency shipmentPoint deliveryPoint = Inr cleanBody"
      using calculateDeliveryByTariff_body_numeric by blast
    from h have tok: "getToken cfg s = (Inr tok, s')"
      by blast
    have sent: "?tariff = [json_clean cleanBody]"
      using calculateDeliveryByTariff_sends [OF body tok] .
    then have "json_clean cleanBody \<in> set ?tariff"
      by simp
    with tariff sent show ?thesis
      by blast
  qed
  have order_sent: "\<exists>b. ?order = [b]
            \<and> code_of b ''to_location'' = Some (JStr (toString (code loc)))"
    if h: "truthy number \<and> truthy tariffCode \<and> recipient = Some rcp \<and> truthy (name rcp)
        \<and> orderPackages = Some pkgs \<and> pkgs \<noteq> [] \<and> \<not> truthy deliveryPoint
        \<and> orderLocation = Some loc \<and> getToken cfg s = (Inr tok, s')"
  proof -
    from h have "truthy deliveryPoint \<or> orderLocation \<noteq> None"
      by simp
    with h obtain body where
      body: "createOrder_body type number tariffCode shipmentPoint deliveryPoint orderLocation
         recipient orderPackages = Inr body"
      using createOrder_body_valid [of number tariffCode recipient rcp orderPackages pkgs
          deliveryPoint orderLocation type shipmentPoint]
      by blast
    from h have tok: "getToken cfg s = (Inr tok, s')"
      by blast
    have sent: "?order = [json_clean body]"
      using createOrder_sends [OF body tok] .
    from h createOrder_body_destination [OF body]
    have "code_of (json_clean body) ''to_location'' = Some (JStr (toString (code loc)))"
      by auto
    with sent show ?thesis
      by blast
  qed
  from quote tariff order quote_sent tariff_sent order_sent show ?thesis
    by blast
qed

text \<open>
  The codes 44 and 270, given as numbers, are sent as the strings \<open>"44"\<close> and
  \<open>"270"\<close> by the three operations.
\<close>

theorem location_codes_sent_as_strings_witness:
  "code moscow = JNum (Fin 44) \<and> code novosibirsk = JNum (Fin 270)
   \<and> numeric_package parcel
   \<and> getToken cfg0 quoting = (Inr (JStr (ascii ''tok-1'')), quoting)
   \<and> json_bodies (new_calls quoting
        (snd (calculateDelivery cfg0 moscow novosibirsk [parcel] quoting))) = [quote_body]
   \<and> code_of quote_body ''from_location'' = Some (JStr (ascii ''44''))
   \<and> code_of quote_body ''to_location'' = Some (JStr (ascii ''270''))
   \<and> json_bodies (new_calls quoting
        (snd (calculateDeliveryByTariff cfg0 (JNum (Fin 136)) moscow novosibirsk [parcel] []
                None JUndefined JUndefined JUndefined quoting))) = [tariff_body]
   \<and> code_of tariff_body ''from_location'' = Some (JStr (ascii ''44''))
   \<and> code_of tariff_body ''to_location'' = Some (JStr (ascii ''270''))
   \<and> json_bodies (new_calls quoting
        (snd (createOrder cfg0 JUndefined (JStr (ascii ''ORDER-1'')) (JNum (Fin 136))
                JUndefined JUndefined (Some novosibirsk) (Some ivanov) (Some [crate]) quoting)))
       = [door_order_body]
   \<and> code_of door_order_body ''to_location'' = Some (JStr (ascii ''270''))"
proof -
  note inst = location_codes_sent_as_strings
    [where s = quoting and cfg = cfg0 and fromLocation = moscow and toLocation = novosibirsk
       and packages = "[parcel]" and tariffCode = "JNum (Fin 136)" and services = "[]"
       and date = None and currency = JUndefined and shipmentPoint = JUndefined
       and deliveryPoint = JUndefined and type = JUndefined
       and number = "JStr (ascii ''ORDER-1'')" and orderLocation = "Some novosibirsk"
       and recipient = "Some ivanov" and orderPackages = "Some [crate]"
       and tok = "JStr (ascii ''tok-1'')" and s' = quoting and rcp = ivanov
       and pkgs = "[crate]" and loc = novosibirsk]
  have codes: "code moscow = JNum (Fin 44)" "code novosibirsk = JNum (Fin 270)"
    by (simp_all add: moscow_def novosibirsk_def)
  have valid: "truthy (JStr (ascii ''ORDER-1'')) \<and> truthy (JNum (Fin 136))
      \<and> truthy (name ivanov) \<and> [crate] \<noteq> [] \<and> \<not> truthy JUndefined
      \<and> [parcel] \<noteq> [] \<and> (\<forall>pkg \<in> set [parcel]. numeric_package pkg)"
    by (simp add: ivanov_def ascii_def parcel_numeric)
  from inst valid quoting_getToken
  have "(\<exists>b. [quote_body] = [b]
            \<and> code_of b ''from_location'' = Some (JStr (ascii ''44''))
            \<and> code_of b ''to_location'' = Some (JStr (ascii ''270'')))
      \<and> (\<exists>b. [tariff_body] = [b]
            \<and> code_of b ''from_location'' = Some (JStr (ascii ''44''))
            \<and> code_of b ''to_location'' = Some (JStr (ascii ''270'')))
      \<and> (\<exists>b. [door_order_body] = [b]
            \<and> code_of b ''to_location'' = Some (JStr (ascii ''270'')))"
    by (simp add: quote_run tariff_run door_order_run codes toString_44 toString_270)
  then show ?thesis
    using quote_run tariff_run door_order_run codes parcel_numeric quoting_getToken
    by simp
qed

lemma map_throwing_package_numbers:
  "\<exists>pkg \<in> set packages. isNaN (toNumber (weight pkg)) \<or> isNaN (toNumber (pkg_length pkg))
      \<or> isNaN (toNumber (width pkg)) \<or> isNaN (toNumber (height pkg)) \<Longrightarrow>
   map_throwing package_numbers packages = Inl InvalidPackageNumbers"
proof (induction packages)
  case Nil
  then show ?case by simp
next
  case (Cons p ps)
  show ?case
  proof (cases "package_numbers p")
    case (Inl e)
    then have "e = InvalidPackageNumbers"
      by (auto simp: package_numbers_def Let_def split: if_splits)
    with Inl show ?thesis by simp
  next
    case (Inr j)
    then have "\<not> (isNaN (toNumber (weight p)) \<or> isNaN (toNumber (pkg_length p))
      \<or> isNaN (toNumber (width p)) \<or> isNaN (toNumber (height p)))"
      by (auto simp: package_numbers_def Let_def split: if_splits)
    with Cons.prems have "\<exists>pkg \<in> set ps. isNaN (toNumber (weight pkg))
        \<or> isNaN (toNumber (pkg_length pkg)) \<or> isNaN (toNumber (width pkg))
        \<or> isNaN (toNumber (height pkg))"
      by auto
    then have "map_throwing package_numbers ps = Inl InvalidPackageNumbers"
      by (rule Cons.IH)
    with Inr show ?thesis by simp
  qed
qed

text \<open>
  C3, as the code has it. In \<open>calculateDelivery\<close> and \<open>calculateDeliveryByTariff\<close>:
  when \<open>Number\<close> of the weight, length, width or height of some package is NaN, the
  operation raises the validation error of lines 162 and 274 and the state is unchanged,
  so no token exchange and no carrier request is made.
\<close>

theorem quotes_reject_nan_dimensions:
  assumes "\<exists>pkg \<in> set packages. isNaN (toNumber (weight pkg)) \<or> isNaN (toNumber (pkg_length pkg))
      \<or> isNaN (toNumber (width pkg)) \<or> isNaN (toNumber (height pkg))"
  shows "calculateDelivery cfg fromLocation toLocation packages s = (Inl InvalidPackageNumbers, s)
    \<and> calculateDeliveryByTariff cfg tariffCode fromLocation toLocation packages services date
          currency shipmentPoint deliveryPoint s = (Inl InvalidPackageNumbers, s)
    \<and> is_validation InvalidPackageNumbers"
  using map_throwing_package_numbers [OF assms]
  by (simp add: calculateDelivery_def calculateDelivery_body_def calculateDeliveryByTariff_def
      calculateDeliveryByTariff_body_def)

text \<open>
  Two packages, the second without a height.
\<close>

theorem quotes_reject_nan_dimensions_witness:
  "isNaN (toNumber (height flat))
   \<and> calculateDelivery cfg0 moscow novosibirsk [parcel, flat] fresh
       = (Inl InvalidPackageNumbers, fresh)
   \<and> calculateDeliveryByTariff cfg0 (JNum (Fin 136)) moscow novosibirsk [parcel, flat] [] None
       JUndefined JUndefined JUndefined fresh = (Inl InvalidPackageNumbers, fresh)
   \<and> is_validation InvalidPackageNumbers"
proof -
  have nan: "isNaN (toNumber (height flat))"
    by (simp add: flat_def isNaN_def)
  then have "\<exists>pkg \<in> set [parcel, flat]. isNaN (toNumber (weight pkg))
      \<or> isNaN (toNumber (pkg_length pkg)) \<or> isNaN (toNumber (width pkg))
      \<or> isNaN (toNumber (height pkg))"
    by simp
  from quotes_reject_nan_dimensions [OF this] nan show ?thesis
    by blast
qed

text \<open>
  The check is \<open>isNaN\<close>: a weight given as the string \<open>Infinity\<close> is not a finite
  number, and the quote is asked for all the same, with the weight serialised as
  \<open>null\<close>.
\<close>

theorem infinite_weight_is_quoted:
  "\<not> isFinite (toNumber (weight heavy))
   \<and> fst (calculateDelivery cfg0 moscow novosibirsk [heavy] quoting)
       = Inr (JObj [(''tariff_codes'', JArr [])])
   \<and> json_bodies (new_calls quoting (snd (calculateDelivery cfg0 moscow novosibirsk [heavy] quoting)))
       = [heavy_quote_body]"
  by (simp add: calculateDelivery_def calculateDelivery_body_def package_numbers_def
      quoting_def cached_def quote_reply_def moscow_def novosibirsk_def parcel_def heavy_def
      heavy_quote_body_def cfg0_def js_eval net_eval)

text \<open>
  \<open>createOrder\<close> converts the dimensions with \<open>Number\<close> as the quotes do (lines 422 to
  425) and has no check: an order whose package has no weight is sent with the weight
  \<open>null\<close>.
\<close>

lemma createOrder_sends_unchecked_dimensions:
  "toNumber (weight (crate\<lparr>weight := JUndefined\<rparr>)) = NaN
   \<and> json_bodies (new_calls quoting (snd (createOrder cfg0 JUndefined (JStr (ascii ''ORDER-1''))
        (JNum (Fin 136)) JUndefined (JStr (ascii ''MSK123'')) None (Some ivanov)
        (Some [crate\<lparr>weight := JUndefined\<rparr>]) quoting)))
     = [JObj [(''type'', JNum (Fin 1)),
              (''number'', JStr (ascii ''ORDER-1'')),
              (''tariff_code'', JNum (Fin 136)),
              (''recipient'',
                 JObj [(''name'', JStr (ascii ''Ivan Ivanov'')),
                       (''phones'', JArr [JObj [(''number'', JStr (ascii ''+79991234567''))]])]),
              (''packages'',
                 JArr [JObj [(''number'', JStr (ascii ''PACK-1'')),
                             (''weight'', JNull), (''length'', JNum (Fin 50)),
                             (''width'', JNum (Fin 50)), (''height'', JNum (Fin 50)),
                             (''items'', JArr [])]]),
              (''delivery_point'', JStr (ascii ''MSK123''))]]"
  by (simp add: createOrder_def createOrder_body_def order_package_json_def phone_number_def
      enumerate_eq_zip quoting_def cached_def quote_reply_def ivanov_def crate_def
      cfg0_def js_eval net_eval)

section \<open>Orders\<close>

text \<open>
  C7. When \<open>deliveryPoint\<close> is given, every JSON body \<open>createOrder\<close> sends has
  \<open>delivery_point\<close>, the string of the point, and no \<open>to_location\<close>, whatever
  \<open>toLocation\<close> is; and for an order with a number, a tariff code, a named recipient
  and at least one package such a body is sent, and is the only JSON body sent, when the
  token is obtained. When neither \<open>deliveryPoint\<close> nor \<open>toLocation\<close> is given,
  \<open>createOrder\<close> fails with a validation error and the state is unchanged: no request
  is made.
\<close>

theorem createOrder_destination:
  "(\<forall>b \<in> set (json_bodies (new_calls s
          (snd (createOrder cfg type number tariffCode shipmentPoint deliveryPoint toLocation
                  recipient packages s)))).
      truthy deliveryPoint \<longrightarrow>
        field b ''delivery_point'' = Some (JStr (toString deliveryPoint))
        \<and> field b ''to_location'' = None)
   \<and> (truthy deliveryPoint \<and> truthy number \<and> truthy tariffCode \<and> recipient = Some rcp
        \<and> truthy (name rcp) \<and> packages = Some pkgs \<and> pkgs \<noteq> []
        \<and> getToken cfg s = (Inr tok, s') \<longrightarrow>
        (\<exists>b. json_bodies (new_calls s
                 (snd (createOrder cfg type number tariffCode shipmentPoint deliveryPoint
                         toLocation recipient packages s))) = [b]
            \<and> field b ''delivery_point'' = Some (JStr (toString deliveryPoint))
            \<and> field b ''to_location'' = None))
   \<and> (\<not> truthy deliveryPoint \<and> toLocation = None \<longrightarrow>
        (\<exists>e. createOrder cfg type number tariffCode shipmentPoint deliveryPoint toLocation
                recipient packages s = (Inl e, s) \<and> is_validation e))"
proof -
  let ?order = "json_bodies (new_calls s
      (snd (createOrder cfg type number tariffCode shipmentPoint deliveryPoint toLocation
              recipient packages s)))"
  have every: "field b ''delivery_point'' = Some (JStr (toString deliveryPoint))
        \<and> field b ''to_location'' = None"
    if h: "b \<in> set ?order" and dp: "truthy deliveryPoint" for b
  proof -
    from h obtain body where
      body: "createOrder_body type number tariffCode shipmentPoint deliveryPoint toLocation
         recipient packages = Inr body"
      and b: "b = json_clean body"
      using createOrder_bodies [of s cfg type number tariffCode shipmentPoint deliveryPoint
          toLocation recipient packages]
      by (auto split: sum.splits)
    from createOrder_body_destination [OF body] b dp show ?thesis
      by simp
  qed
  have sent: "\<exists>b. ?order = [b]
            \<and> field b ''delivery_point'' = Some (JStr (toString deliveryPoint))
            \<and> field b ''to_location'' = None"
    if h: "truthy deliveryPoint \<and> truthy number \<and> truthy tariffCode \<and> recipient = Some rcp
        \<and> truthy (name rcp) \<and> packages = Some pkgs \<and> pkgs \<noteq> []
        \<and> getToken cfg s = (Inr tok, s')"
  proof -
    from h have "truthy deliveryPoint \<or> toLocation \<noteq> None"
      by simp
    with h obtain body where
      body: "createOrder_body type number tariffCode shipmentPoint deliveryPoint toLocation
         recipient packages = Inr body"
      using createOrder_body_valid [of number tariffCode recipient rcp packages pkgs
          deliveryPoint toLocation type shipmentPoint]
      by blast
    from h have tok: "getToken cfg s = (Inr tok, s')"
      by blast
    have only: "?order = [json_clean body]"
      using createOrder_sends [OF body tok] .
    then have "json_clean body \<in> set ?order"
      by simp
    with every h only show ?thesis
      by blast
  qed
  have neither: "\<exists>e. createOrder cfg type number tariffCode shipmentPoint deliveryPoint toLocation
                recipient packages s = (Inl e, s) \<and> is_validation e"
    if h: "\<not> truthy deliveryPoint \<and> toLocation = None"
  proof -
    from h have "\<exists>e. createOrder_body type number tariffCode shipmentPoint deliveryPoint toLocation
                  recipient packages = Inl e \<and> is_validation e"
      by (auto simp: createOrder_body_def Let_def split: option.splits)
    then show ?thesis
      by (auto simp: createOrder_def)
  qed
  from every sent neither show ?thesis
    by blast
qed

text \<open>
  An order with the point \<open>MSK123\<close> and a location, and the same order with neither.
\<close>

lemma order_without_destination:
  "createOrder cfg0 JUndefined (JStr (ascii ''ORDER-1'')) (JNum (Fin 136)) JUndefined JUndefined
     None (Some ivanov) (Some [crate]) quoting = (Inl DestinationRequired, quoting)"
  by (simp add: createOrder_def createOrder_body_def ivanov_def ascii_def)

theorem createOrder_destination_witness:
  "truthy (JStr (ascii ''MSK123''))
   \<and> getToken cfg0 quoting = (Inr (JStr (ascii ''tok-1'')), quoting)
   \<and> json_bodies (new_calls quoting
        (snd (createOrder cfg0 JUndefined (JStr (ascii ''ORDER-1'')) (JNum (Fin 136)) JUndefined
                (JStr (ascii ''MSK123'')) (Some novosibirsk) (Some ivanov) (Some [crate])
                quoting))) = [point_order_body]
   \<and> field point_order_body ''delivery_point'' = Some (JStr (ascii ''MSK123''))
   \<and> field point_order_body ''to_location'' = None
   \<and> createOrder cfg0 JUndefined (JStr (ascii ''ORDER-1'')) (JNum (Fin 136)) JUndefined
        JUndefined None (Some ivanov) (Some [crate]) quoting = (Inl DestinationRequired, quoting)
   \<and> is_validation DestinationRequired"
proof -
  have supplied: "truthy (JStr (ascii ''MSK123''))"
    by (simp add: ascii_def)
  have valid: "truthy (JStr (ascii ''ORDER-1'')) \<and> truthy (JNum (Fin 136))
      \<and> truthy (name ivanov) \<and> [crate] \<noteq> []"
    by (simp add: ivanov_def ascii_def)
  note both = createOrder_destination
    [where s = quoting and cfg = cfg0 and type = JUndefined
       and number = "JStr (ascii ''ORDER-1'')" and tariffCode = "JNum (Fin 136)"
       and shipmentPoint = JUndefined and deliveryPoint = "JStr (ascii ''MSK123'')"
       and toLocation = "Some novosibirsk" and recipient = "Some ivanov"
       and packages = "Some [crate]" and rcp = ivanov and pkgs = "[crate]"
       and tok = "JStr (ascii ''tok-1'')" and s' = quoting]
  note neither = createOrder_destination
    [where s = quoting and cfg = cfg0 and type = JUndefined
       and number = "JStr (ascii ''ORDER-1'')" and tariffCode = "JNum (Fin 136)"
       and shipmentPoint = JUndefined and deliveryPoint = JUndefined
       and toLocation = None and recipient = "Some ivanov" and packages = "Some [crate]"]
  from both supplied valid quoting_getToken
  have "\<exists>b. [point_order_body] = [b]
          \<and> field b ''delivery_point'' = Some (JStr (ascii ''MSK123''))
          \<and> field b ''to_location'' = None"
    by (simp add: point_order_run)
  then have "field point_order_body ''delivery_point'' = Some (JStr (ascii ''MSK123''))
        \<and> field point_order_body ''to_location'' = None"
    by simp
  moreover from neither order_without_destination
  have "is_validation DestinationRequired"
    by simp
  ultimately show ?thesis
    using supplied point_order_run order_without_destination quoting_getToken by simp
qed

section \<open>The list of tariffs\<close>

text \<open>
  A status 404 puts the digits 404 into the message of the error, so \<open>getTariffs\<close>
  takes the fallback; an error whose message does not hold them is thrown again as it
  is.
\<close>

lemma includes_str_Nil: "includes_str str []"
  by (cases str) simp_all

lemma startsWith_append: "startsWith a p \<Longrightarrow> startsWith (a @ b) p"
  by (induction a p rule: startsWith.induct) auto

lemma includes_str_append: "includes_str a p \<Longrightarrow> includes_str (a @ b) p"
proof (induction a)
  case Nil
  then show ?case by (simp add: includes_str_Nil)
next
  case (Cons c cs)
  then show ?case
    using startsWith_append [of "c # cs" p b] by auto
qed

lemma message_404: "includes_str (message (ApiError 404 errorData)) (ascii ''404'')"
proof -
  have "includes_str (ascii ''CDEK API Error ('' @ dec 404 @ ascii ''): '') (ascii ''404'')"
    by (simp add: ascii_def dec.simps)
  then have "includes_str ((ascii ''CDEK API Error ('' @ dec 404 @ ascii ''): '')
                @ json_stringify errorData) (ascii ''404'')"
    by (rule includes_str_append)
  then show ?thesis
    by simp
qed

lemma getTariffs_propagates:
  assumes "request cfg ''/calculator/tariffs'' [] ''GET'' [(''X-User-Lang'', lang)] JUndefined s
             = (Inl err, s')"
    and "\<not> includes_str (message err) (ascii ''404'')"
  shows "getTariffs cfg lang optFromCityCode optToCityCode s = (Inl err, s')"
  using assms by (simp add: getTariffs_def)

text \<open>
  C6, at two inputs. The tariffs endpoint answers 404 and the quote between the cities
  44 and 270 for a package of 1000 g and 10 x 10 x 10 cm lists tariff 136 twice:
  \<open>getTariffs\<close> returns both entries, equal in code, name, description and mode. The
  tariffs endpoint answers 500 with a text that holds the digits 404: the request fails
  with the error of status 500, and \<open>getTariffs\<close> returns the list of the fallback
  instead of throwing that error.
\<close>

theorem getTariffs_fallback_defects:
  "fst (getTariffs cfg0 (ascii ''rus'') JUndefined JUndefined listing)
     = Inr (JArr [JObj tariff_136, JObj tariff_136])
   \<and> json_bodies (new_calls listing (snd (getTariffs cfg0 (ascii ''rus'') JUndefined JUndefined listing)))
     = [fallback_body]
   \<and> fst (request cfg0 ''/calculator/tariffs'' [] ''GET'' [(''X-User-Lang'', ascii ''rus'')]
            JUndefined failing)
     = Inl (ApiError 500 (JObj [(''message'', JStr (ascii ''upstream answered 404''))]))
   \<and> fst (getTariffs cfg0 (ascii ''rus'') JUndefined JUndefined failing)
     = Inr (JArr [JObj tariff_136, JObj tariff_136])"
  by (simp add: getTariffs_def calculateDelivery_def calculateDelivery_body_def
      package_numbers_def tariff_entry_def quote_def unicode_escape_def
      listing_def failing_def cached_def not_found_reply_def broken_reply_def twice_reply_def
      tariff_136_def fallback_body_def cfg0_def js_eval net_eval)

section \<open>The route layer\<close>

lemma includes_str_single: "includes_str str [c] = (c \<in> set str)"
  by (induction str) auto

lemma trim_unchanged:
  assumes "a \<noteq> []" and "\<not> is_space (hd a)" and "\<not> is_space (last a)"
  shows "trim a = a"
proof -
  from assms have "dropWhile is_space a = a"
    by (cases a) simp_all
  moreover from assms have "dropWhile is_space (rev a) = rev a"
    by (cases "rev a") (simp_all add: hd_rev)
  ultimately show ?thesis
    by (simp add: trim_def)
qed

text \<open>
  C9, as the code has it. For an address that is not blank, \<open>formatAddress\<close> removes
  the white space around it; the result is prefixed with the locality marker when it has
  no comma and does not already begin with the marker, and is returned as it is when it
  has a comma or begins with the marker. An address with no white space around it is its
  own trimmed form.
\<close>

theorem formatAddress_marker:
  assumes "trim a \<noteq> []"
  shows "(44 \<notin> set (trim a) \<and> \<not> startsWith (trim a) locality_marker \<longrightarrow>
            formatAddress (Some a) = Some (locality_marker @ trim a))
         \<and> (44 \<in> set (trim a) \<or> startsWith (trim a) locality_marker \<longrightarrow>
            formatAddress (Some a) = Some (trim a))
         \<and> (\<not> is_space (hd a) \<and> \<not> is_space (last a) \<longrightarrow> trim a = a)"
proof -
  from assms have "a \<noteq> []"
    by (auto simp: trim_def)
  with assms show ?thesis
    by (auto simp: formatAddress_def Let_def includes_str_single trim_unchanged)
qed

text \<open>
  The bare city name is prefixed; the full address comes back unchanged.
\<close>

lemma trim_moskva: "trim moskva = moskva"
  by (simp add: trim_def moskva_def is_space_def)

lemma trim_full_address: "trim full_address = full_address"
  by (simp add: trim_def full_address_def is_space_def)

theorem formatAddress_marker_witness:
  "trim moskva \<noteq> [] \<and> 44 \<notin> set (trim moskva) \<and> \<not> startsWith (trim moskva) locality_marker
   \<and> formatAddress (Some moskva) = Some (locality_marker @ moskva)
   \<and> trim full_address \<noteq> [] \<and> 44 \<in> set (trim full_address)
   \<and> formatAddress (Some full_address) = Some full_address"
proof -
  have m: "trim moskva \<noteq> []" "44 \<notin> set (trim moskva)"
    "\<not> startsWith (trim moskva) locality_marker"
    by (simp_all add: trim_moskva) (simp_all add: moskva_def locality_marker_def)
  have f: "trim full_address \<noteq> []" "44 \<in> set (trim full_address)"
    by (simp_all add: trim_full_address) (simp_all add: full_address_def)
  from formatAddress_marker [OF m(1)] formatAddress_marker [OF f(1)] m f show ?thesis
    by (simp add: trim_moskva trim_full_address)
qed

text \<open>
  A city name that already carries the marker has no comma, and is not prefixed.
\<close>

theorem formatAddress_keeps_marked_city:
  "trim (locality_marker @ moskva) \<noteq> []
   \<and> 44 \<notin> set (locality_marker @ moskva)
   \<and> formatAddress (Some (locality_marker @ moskva)) = Some (locality_marker @ moskva)
   \<and> formatAddress (Some (locality_marker @ moskva))
       \<noteq> Some (locality_marker @ locality_marker @ moskva)"
  by (simp add: formatAddress_def trim_def moskva_def locality_marker_def is_space_def)

lemma find_filter:
  "find P xs = (case filter P xs of [] \<Rightarrow> None | x # _ \<Rightarrow> Some x)"
  by (induction xs) auto

lemma is_ltl_field:
  "\<not> is_nullish office \<Longrightarrow>
   (get_prop office ''is_ltl'' = Some (JBool True)) = (field office ''is_ltl'' = Some (JBool True))"
  by (cases office) (auto simp: get_prop_def field_def is_nullish_def split: option.splits)

lemma code_field:
  "\<not> is_nullish office \<Longrightarrow>
   (case get_prop office ''code'' of Some c \<Rightarrow> c | None \<Rightarrow> JUndefined) = office_code office"
  by (cases office) (auto simp: get_prop_def field_def office_code_def is_nullish_def
      split: option.splits)

lemma select_office_preferred:
  assumes "offices \<noteq> []" and "\<forall>office \<in> set offices. \<not> is_nullish office"
  shows "select_office var (JArr offices) = Inr (Some (office_code (preferred_office offices)))"
proof -
  let ?P = "\<lambda>office. get_prop office ''is_ltl'' = Some (JBool True)"
  let ?Q = "\<lambda>office. field office ''is_ltl'' = Some (JBool True)"
  from assms(2) have none: "filter is_nullish offices = []"
    by (simp add: filter_empty_conv)
  from assms(2) have same: "filter ?P offices = filter ?Q offices"
    by (intro filter_cong) (simp_all add: is_ltl_field)
  from assms have first: "\<not> is_nullish (hd offices)"
    by simp
  show ?thesis
  proof (cases "filter ?Q offices")
    case Nil
    then have "preferred_office offices = hd offices"
      by (simp add: preferred_office_def find_filter)
    with Nil none same assms(1) first show ?thesis
      by (simp add: select_office_def code_field)
  next
    case (Cons office rest)
    then have pref: "preferred_office offices = office"
      by (simp add: preferred_office_def find_filter)
    from Cons have "office \<in> set (filter ?Q offices)"
      by simp
    then have "\<not> is_nullish office"
      using assms(2) by simp
    with Cons none same assms(1) pref show ?thesis
      by (simp add: select_office_def code_field)
  qed
qed

lemma num_to_string_10: "num_to_string (Fin 10) = ascii ''10''"
  by (simp add: js_eval)

lemma getOffices_pvz:
  "getOffices cfg city pvz_filters s =
     request cfg ''/deliverypoints''
       [(''city_code'', num_to_string city), (''lang'', ascii ''rus''),
        (''type'', ascii ''PVZ''), (''size'', ascii ''10'')]
       ''GET'' [] JUndefined s"
  by (simp add: getOffices_def pvz_filters_def is_nullish_def obj_spread_def num_to_string_10)

lemma find_office_calls:
  "calls (snd (find_office cfg var label cityCode point s))
     = calls s @ (if cache_valid s then [] else [token_request cfg])
       @ (case fst (getToken cfg s) of
            Inr tok \<Rightarrow> [pvz_query cfg cityCode tok] | Inl e \<Rightarrow> [])"
proof -
  have "calls (snd (find_office cfg var label cityCode point s))
          = calls (snd (getOffices cfg (parseInt cityCode) pvz_filters s))"
    by (simp add: find_office_def pvz_filters_def split: prod.splits sum.splits option.splits)
  then show ?thesis
    by (simp add: getOffices_pvz request_calls pvz_query_def split: sum.splits)
qed

lemma find_office_selects:
  assumes "getOffices cfg (parseInt cityCode) pvz_filters s = (Inr (JArr offices), s')"
    and "offices \<noteq> []" and "\<forall>office \<in> set offices. \<not> is_nullish office"
  shows "find_office cfg var label cityCode point s
           = (office_code (preferred_office offices), s')"
  using assms(1) select_office_preferred [OF assms(2,3)]
  by (simp add: find_office_def pvz_filters_def)

lemma find_office_swallows:
  assumes "getOffices cfg (parseInt cityCode) pvz_filters s = (Inl err, s')"
  shows "find_office cfg var label cityCode point s
           = (point, s'\<lparr>warnings := warnings s' @ [(label, message err)]\<rparr>)"
  using assms by (simp add: find_office_def pvz_filters_def)

text \<open>
  C8, as the code has it. The discovery of a pickup point asks for the offices of type
  PVZ (at most 10) of the city, after the token exchange when the cache is not valid, and
  makes no other request. When the carrier returns a list of offices that is not empty,
  the point becomes the code of the first office flagged \<open>is_ltl\<close>, or of the first
  office when none is flagged. When the query fails, the point stays as it was and the
  message of the error is written with \<open>console.warn\<close>; no error is returned. For
  tariff 751 the shipment point is discovered when none is given, in the city of
  departure, and the delivery point, in the city of arrival, when neither a delivery
  point nor a destination address is given.
\<close>

theorem pickup_point_discovery:
  "(calls (snd (find_office cfg var label cityCode point s))
      = calls s @ (if cache_valid s then [] else [token_request cfg])
        @ (case fst (getToken cfg s) of
             Inr tok \<Rightarrow> [pvz_query cfg cityCode tok] | Inl e \<Rightarrow> []))
   \<and> (getOffices cfg (parseInt cityCode) pvz_filters s = (Inr (JArr offices), s')
        \<and> offices \<noteq> [] \<and> (\<forall>office \<in> set offices. \<not> is_nullish office) \<longrightarrow>
        find_office cfg var label cityCode point s
          = (office_code (preferred_office offices), s'))
   \<and> (getOffices cfg (parseInt cityCode) pvz_filters s = (Inl err, s') \<longrightarrow>
        find_office cfg var label cityCode point s
          = (point, s'\<lparr>warnings := warnings s' @ [(label, message err)]\<rparr>))
   \<and> (parseInt tariffCode = Fin 751 \<longrightarrow>
        discover_points cfg tariffCode fromCityCode toCityCode toAddress shipmentPoint
            deliveryPoint s
          = (let (sp, sa) = (if truthy shipmentPoint then (shipmentPoint, s)
                             else find_office cfg ''officesFrom'' warn_shipment fromCityCode
                                    shipmentPoint s);
                 (dp, sb) = (if truthy deliveryPoint \<or> truthy toAddress then (deliveryPoint, sa)
                              else find_office cfg ''officesTo'' warn_delivery toCityCode
                                     deliveryPoint sa)
             in ((sp, dp), sb)))"
  using find_office_calls [of cfg var label cityCode point s]
    find_office_selects [of cfg cityCode s offices s' var label point]
    find_office_swallows [of cfg cityCode s err s' var label point]
  by (auto simp: discover_points_def Let_def split: prod.splits)

lemma parseInt_751: "parseInt (JNum (Fin 751)) = Fin 751"
  by (simp add: parseInt_def is_radix_digit_def js_eval)

lemma parseInt_44: "parseInt (JNum (Fin 44)) = Fin 44"
  by (simp add: parseInt_def is_radix_digit_def js_eval)

lemma replicate_three: "replicate 3 x = [x, x, x]"
  by (simp add: numeral_3_eq_3)

lemma parseInt_sizes:
  "parseInt (JNum (Fin 2000)) = Fin 2000" "parseInt (JNum (Fin 10)) = Fin 10"
  "parseInt (JNum (Fin 20)) = Fin 20" "parseInt (JNum (Fin 30)) = Fin 30"
  by (simp_all add: parseInt_def is_radix_digit_def replicate_three js_eval)

lemma parseInt_270: "parseInt (JNum (Fin 270)) = Fin 270"
  by (simp add: parseInt_def is_radix_digit_def js_eval)

lemma offices_query:
  "getOffices cfg0 (parseInt (JNum (Fin 44))) pvz_filters discovering
     = (Inr (JArr two_offices), discovered)"
  by (simp add: getOffices_pvz parseInt_44 toString_44 pvz_query_def 
      discovering_def discovered_def cached_def offices_reply_def cfg0_def net_eval
      js_or_def get_prop_def ascii_def)

lemma offices_query_refused:
  "getOffices cfg0 (parseInt (JNum (Fin 44))) pvz_filters refused
     = (Inl (RuntimeError (ascii ''fetch failed'')), refused_after\<lparr>warnings := []\<rparr>)"
  by (simp add: getOffices_pvz parseInt_44 toString_44 pvz_query_def 
      refused_def refused_after_def cached_def cfg0_def net_eval
      js_or_def get_prop_def ascii_def)

lemma preferred_of_two: "office_code (preferred_office two_offices) = JStr (ascii ''MSK7'')"
  by (simp add: preferred_office_def office_code_def two_offices_def field_def)

text \<open>
  The carrier returns the offices MSK5 and MSK7, the second flagged: MSK7 is chosen. A
  refused query leaves the point undefined and writes the warning.
\<close>

theorem pickup_point_discovery_witness:
  "getOffices cfg0 (parseInt (JNum (Fin 44))) pvz_filters discovering
     = (Inr (JArr two_offices), discovered)
   \<and> two_offices \<noteq> [] \<and> \<not> list_ex is_nullish two_offices
   \<and> find_office cfg0 ''officesFrom'' warn_shipment (JNum (Fin 44)) JUndefined discovering
       = (JStr (ascii ''MSK7''), discovered)
   \<and> calls discovered = [pvz_query cfg0 (JNum (Fin 44)) (JStr (ascii ''tok-1''))]
   \<and> find_office cfg0 ''officesFrom'' warn_shipment (JNum (Fin 44)) JUndefined refused
       = (JUndefined, refused_after)
   \<and> parseInt (JNum (Fin 751)) = Fin 751
   \<and> discover_points cfg0 (JNum (Fin 751)) (JNum (Fin 44)) (JNum (Fin 270)) lenina JUndefined
        JUndefined discovering
       = ((JStr (ascii ''MSK7''), JUndefined), discovered)"
proof -
  have offices: "two_offices \<noteq> []" "\<forall>office \<in> set two_offices. \<not> is_nullish office"
    by (simp_all add: two_offices_def is_nullish_def)
  note found = pickup_point_discovery
    [where cfg = cfg0 and var = "''officesFrom''" and label = warn_shipment
       and cityCode = "JNum (Fin 44)" and point = JUndefined and s = discovering
       and offices = two_offices and s' = discovered
       and tariffCode = "JNum (Fin 751)" and fromCityCode = "JNum (Fin 44)"
       and toCityCode = "JNum (Fin 270)" and toAddress = lenina
       and shipmentPoint = JUndefined and deliveryPoint = JUndefined]
  note failed = pickup_point_discovery
    [where cfg = cfg0 and var = "''officesFrom''" and label = warn_shipment
       and cityCode = "JNum (Fin 44)" and point = JUndefined and s = refused
       and err = "RuntimeError (ascii ''fetch failed'')"
       and s' = "refused_after\<lparr>warnings := []\<rparr>"]
  from found offices offices_query preferred_of_two
  have sel: "find_office cfg0 ''officesFrom'' warn_shipment (JNum (Fin 44)) JUndefined discovering
       = (JStr (ascii ''MSK7''), discovered)"
    by simp
  from failed offices_query_refused
  have swallowed: "find_office cfg0 ''officesFrom'' warn_shipment (JNum (Fin 44)) JUndefined refused
       = (JUndefined, refused_after)"
    by (simp add: refused_after_def refused_def cached_def)
  have addr: "truthy lenina"
    by (simp add: lenina_def ascii_def)
  from found parseInt_751 sel addr
  have "discover_points cfg0 (JNum (Fin 751)) (JNum (Fin 44)) (JNum (Fin 270)) lenina JUndefined
        JUndefined discovering
       = ((JStr (ascii ''MSK7''), JUndefined), discovered)"
    by simp
  with sel swallowed offices offices_query parseInt_751 show ?thesis
    by (simp add: discovered_def list_ex_iff)
qed

text \<open>
  With tariff 751, a shipment point and a destination address, no delivery point is
  given and none is looked for: no request is made.
\<close>

theorem delivery_point_not_discovered:
  "parseInt (JNum (Fin 751)) = Fin 751
   \<and> \<not> truthy JUndefined
   \<and> discover_points cfg0 (JNum (Fin 751)) (JNum (Fin 44)) (JNum (Fin 270)) lenina
        (JStr (ascii ''MSK1'')) JUndefined discovering
       = ((JStr (ascii ''MSK1''), JUndefined), discovering)"
  by (simp add: discover_points_def parseInt_751 lenina_def ascii_def)

text \<open>
  The handler asks for the quote with the point it found, and asks for it as well after
  a refused discovery.
\<close>

lemma handler_uses_discovered_point:
  "fst (calculate_by_tariff cfg0 (JNum (Fin 751)) (JNum (Fin 44)) (JStr (ascii ''Moscow''))
          (JNum (Fin 270)) lenina (JNum (Fin 2000)) (JNum (Fin 10)) (JNum (Fin 20))
          (JNum (Fin 30)) [] JUndefined JUndefined discovering)
     = Success (JObj [(''tariff_code'', JNum (Fin 751)), (''delivery_sum'', JNum (Fin 1200))])
   \<and> json_bodies (new_calls discovering
        (snd (calculate_by_tariff cfg0 (JNum (Fin 751)) (JNum (Fin 44)) (JStr (ascii ''Moscow''))
                (JNum (Fin 270)) lenina (JNum (Fin 2000)) (JNum (Fin 10)) (JNum (Fin 20))
                (JNum (Fin 30)) [] JUndefined JUndefined discovering)))
     = [JObj (warehouse_body @ [(''shipment_point'', JStr (ascii ''MSK7''))])]"
  by (simp add: calculate_by_tariff_def discover_points_def find_office_def select_office_def
      getOffices_def is_nullish_def parseInt_751 parseInt_44 parseInt_270 parseInt_sizes
      calculateDeliveryByTariff_def calculateDeliveryByTariff_body_def
      package_numbers_def location_with_address_def lenina_def warehouse_body_def
      discovering_def cached_def offices_reply_def tariff_reply_def two_offices_def
      package_json_def cfg0_def stamp_eval js_eval net_eval)

lemma handler_survives_refused_discovery:
  "fst (calculate_by_tariff cfg0 (JNum (Fin 751)) (JNum (Fin 44)) (JStr (ascii ''Moscow''))
          (JNum (Fin 270)) lenina (JNum (Fin 2000)) (JNum (Fin 10)) (JNum (Fin 20))
          (JNum (Fin 30)) [] JUndefined JUndefined refused)
     = Success (JObj [(''tariff_code'', JNum (Fin 751)), (''delivery_sum'', JNum (Fin 1200))])
   \<and> warnings (snd (calculate_by_tariff cfg0 (JNum (Fin 751)) (JNum (Fin 44))
          (JStr (ascii ''Moscow'')) (JNum (Fin 270)) lenina (JNum (Fin 2000)) (JNum (Fin 10))
          (JNum (Fin 20)) (JNum (Fin 30)) [] JUndefined JUndefined refused))
     = [(warn_shipment, ascii ''fetch failed'')]
   \<and> json_bodies (new_calls refused
        (snd (calculate_by_tariff cfg0 (JNum (Fin 751)) (JNum (Fin 44)) (JStr (ascii ''Moscow''))
                (JNum (Fin 270)) lenina (JNum (Fin 2000)) (JNum (Fin 10)) (JNum (Fin 20))
                (JNum (Fin 30)) [] JUndefined JUndefined refused)))
     = [JObj warehouse_body]"
  by (simp add: calculate_by_tariff_def discover_points_def find_office_def select_office_def
      getOffices_def is_nullish_def parseInt_751 parseInt_44 parseInt_270 parseInt_sizes
      calculateDeliveryByTariff_def calculateDeliveryByTariff_body_def
      package_numbers_def location_with_address_def lenina_def warehouse_body_def
      refused_def cached_def tariff_reply_def
      package_json_def cfg0_def stamp_eval js_eval net_eval)

end
